theory Spec2Isabelle
  imports Complex_Main "HOL-Library.Multiset" "HOL-Library.Sublist"
begin

section \<open>Go values\<close>

text \<open>
  A Go \<open>error\<close> is modelled by its message; \<open>NotExist\<close> is the one kind
  \<open>os.IsNotExist\<close> recognises. A panic is not a return value in Go: a function that
  may panic returns \<open>panic + 'a\<close>, \<open>Inl\<close> being the panic that unwinds it.
\<close>

datatype error = Err string | NotExist string

fun message :: "error \<Rightarrow> string" where
  "message (Err m) = m"
| "message (NotExist m) = m"

fun IsNotExist :: "error \<Rightarrow> bool" where
  "IsNotExist (NotExist m) = True"
| "IsNotExist (Err m) = False"

datatype panic = SliceBoundsOutOfRange nat nat | NilPointerDereference

text \<open>
  A pointer field of the cloud SDK (\<open>*string\<close>, \<open>*bool\<close>, \<open>*int32\<close>) is an
  \<open>option\<close>, \<open>nil\<close> being \<open>None\<close>; \<open>aws.ToString\<close> and \<open>aws.ToBool\<close> read such a
  pointer and give the zero value for \<open>nil\<close>.
\<close>

definition ToString :: "string option \<Rightarrow> string" where
  "ToString p = (case p of None \<Rightarrow> [] | Some s \<Rightarrow> s)"

definition ToBool :: "bool option \<Rightarrow> bool" where
  "ToBool p = (case p of None \<Rightarrow> False | Some b \<Rightarrow> b)"

subsection \<open>Formatting: the verbs of \<open>fmt.Sprintf\<close> the checks use\<close>

definition digit_char :: "nat \<Rightarrow> char" where
  "digit_char d = ''0123456789'' ! d"

function fmt_d :: "nat \<Rightarrow> string" where
  "fmt_d n = (if n < 10 then [digit_char n] else fmt_d (n div 10) @ [digit_char (n mod 10)])"
  by pat_completeness auto
termination
  by (relation "measure id") auto

declare fmt_d.simps [simp del]

text \<open>\<open>%d\<close> of a signed integer (the retention periods are \<open>int32\<close>).\<close>

definition fmt_d_int :: "int \<Rightarrow> string" where
  "fmt_d_int i = (if i < 0 then CHR ''-'' # fmt_d (nat (- i)) else fmt_d (nat i))"

text \<open>\<open>%v\<close> of a \<open>[]string\<close>: the elements separated by one space, in square brackets.\<close>

fun join_space :: "string list \<Rightarrow> string" where
  "join_space [] = []"
| "join_space [x] = x"
| "join_space (x # y # ys) = x @ '' '' @ join_space (y # ys)"

definition fmt_v :: "string list \<Rightarrow> string" where
  "fmt_v xs = ''['' @ join_space xs @ '']''"

text \<open>The right arrow (U+2192) of the guidance texts, as its three UTF-8 bytes.\<close>

definition arrow :: string where
  "arrow = [CHR 0xE2, CHR 0x86, CHR 0x92]"

section \<open>The offline cache\<close>

subsection \<open>Cached data\<close>

record CachedControl =
  ID :: string
  Name :: string
  Category :: string
  Severity :: string
  Status :: string
  Evidence :: string
  Remediation :: string
  RemediationDetail :: string
  Priority :: string
  Impact :: string
  ScreenshotGuide :: string
  ConsoleURL :: string
  Frameworks :: "string \<rightharpoonup> string"

text \<open>
  A \<open>time.Time\<close> is an instant, counted in nanoseconds. \<open>Score\<close> is a \<open>float64\<close>, which
  the cache stores and returns without computing on it; it is a real number here.
  \<open>CheckResult\<close>, declared further down, has fields of the same names as these records;
  from there on an unqualified field name means the field of \<open>CheckResult\<close>.
\<close>

record CachedScan =
  Timestamp :: int
  Provider :: string
  Framework :: string
  AccountID :: string
  Score :: real
  TotalControls :: int
  PassedControls :: int
  FailedControls :: int
  Controls :: "CachedControl list"
  Recommendations :: "string list"
  Version :: string

record Cache =
  basePath :: string

subsection \<open>The operating system and the libraries\<close>

text \<open>
  The library functions the cache calls, taken as parameters: \<open>json.MarshalIndent\<close> and
  \<open>json.Unmarshal\<close> at type \<open>CachedScan\<close>, \<open>Time.Format\<close> with the layout
  \<open>20060102-150405\<close>, and \<open>filepath.Join\<close>.
\<close>

record library =
  MarshalIndent :: "CachedScan \<Rightarrow> error + string"
  Unmarshal :: "string \<Rightarrow> error + CachedScan"
  Format :: "int \<Rightarrow> string"
  Join :: "string \<Rightarrow> string \<Rightarrow> string"

text \<open>
  A directory entry as \<open>os.ReadDir\<close> returns it; \<open>Info\<close> is \<open>None\<close> when
  \<open>entry.Info()\<close> fails (the caller then holds a nil \<open>FileInfo\<close>), else the size.
\<close>

record DirEntry =
  Name :: string
  IsDir :: bool
  Info :: "nat option"

text \<open>
  The file system: the content of every regular file by path, the listing of every
  directory, and the paths on which the system refuses to write, read or remove.
\<close>

record filesystem =
  contents :: "string \<rightharpoonup> string"
  ReadDir :: "string \<Rightarrow> error + DirEntry list"
  write_fault :: "string \<rightharpoonup> error"
  read_fault :: "string \<rightharpoonup> error"
  remove_fault :: "string \<rightharpoonup> error"


definition ReadFile :: "filesystem \<Rightarrow> string \<Rightarrow> error + string" where
  "ReadFile fs path =
     (case contents fs path of
        None \<Rightarrow> Inl (NotExist (''open '' @ path @ '': no such file or directory''))
      | Some data \<Rightarrow>
          (case read_fault fs path of
             Some err \<Rightarrow> Inl err
           | None \<Rightarrow> Inr data))"

definition Remove :: "filesystem \<Rightarrow> string \<Rightarrow> filesystem \<times> error option" where
  "Remove fs path =
     (case contents fs path of
        None \<Rightarrow> (fs, Some (NotExist (''remove '' @ path @ '': no such file or directory'')))
      | Some data \<Rightarrow>
          (case remove_fault fs path of
             Some err \<Rightarrow> (fs, Some err)
           | None \<Rightarrow> (fs\<lparr>contents := (contents fs)(path := None)\<rparr>, None)))"

text \<open>
  \<open>filepath.Ext\<close>: the suffix from the last dot of the last path element, empty when
  that element has no dot. The scan runs from the end of the path and stops at a slash,
  the separator of path elements.
\<close>

fun Ext_scan :: "string \<Rightarrow> string \<Rightarrow> string" where
  "Ext_scan [] ext = []"
| "Ext_scan (ch # front) ext =
     (if ch = CHR ''/'' then []
      else if ch = CHR ''.'' then ch # ext
      else Ext_scan front (ch # ext))"

definition Ext :: "string \<Rightarrow> string" where
  "Ext path = Ext_scan (rev path) []"

text \<open>The slice expression \<open>s[:n]\<close> of a string panics when \<open>n\<close> exceeds its length.\<close>

definition slice_to :: "string \<Rightarrow> nat \<Rightarrow> panic + string" where
  "slice_to s n = (if n \<le> length s then Inr (take n s) else Inl (SliceBoundsOutOfRange n (length s)))"

subsection \<open>Save and load\<close>

definition getScanFilename :: "library \<Rightarrow> string \<Rightarrow> string \<Rightarrow> string \<Rightarrow> int \<Rightarrow> string" where
  "getScanFilename lib provider accountID framework timestamp =
     ''scan-'' @ provider @ ''-'' @ accountID @ ''-'' @ framework @ ''-'' @ Format lib timestamp @ ''.json''"



definition loadFromFile :: "library \<Rightarrow> filesystem \<Rightarrow> string \<Rightarrow> error + CachedScan" where
  "loadFromFile lib fs filePath =
     (case ReadFile fs filePath of
        Inl err \<Rightarrow>
          (if IsNotExist err then Inl (Err (''no cached scan found at '' @ filePath))
           else Inl (Err (''failed to read cache file: '' @ message err)))
      | Inr data \<Rightarrow>
          (case Unmarshal lib data of
             Inl err \<Rightarrow> Inl (Err (''failed to parse cache file: '' @ message err))
           | Inr scan \<Rightarrow> Inr scan))"


definition LoadByTimestamp ::
    "library \<Rightarrow> Cache \<Rightarrow> filesystem \<Rightarrow> string \<Rightarrow> string \<Rightarrow> string \<Rightarrow> int \<Rightarrow> error + CachedScan" where
  "LoadByTimestamp lib c fs provider accountID framework timestamp =
     (let filename = getScanFilename lib provider accountID framework timestamp;
          scanPath = Join lib (basePath c) filename
      in loadFromFile lib fs scanPath)"

subsection \<open>Cache information and expiry\<close>

text \<open>
  \<open>GetCacheInfo\<close> returns a map with the keys \<open>cache_path\<close>, \<open>total_files\<close> and
  \<open>scans\<close>; each element of \<open>scans\<close> is a map with the keys \<open>filename\<close>,
  \<open>provider\<close>, \<open>framework\<close>, \<open>account\<close>, \<open>timestamp\<close>, \<open>score\<close> and \<open>size\<close>.
  Both are records here, the field of a key carrying the prefix \<open>info_\<close>.
\<close>

record ScanInfo =
  info_filename :: string
  info_provider :: string
  info_framework :: string
  info_account :: string
  info_timestamp :: int
  info_score :: real
  info_size :: nat

record CacheInfo =
  info_cache_path :: string
  info_total_files :: nat
  info_scans :: "ScanInfo list"

text \<open>The loop of \<open>GetCacheInfo\<close> over the directory entries, \<open>scans\<close> being its accumulator.\<close>

fun GetCacheInfo_entries ::
    "library \<Rightarrow> Cache \<Rightarrow> filesystem \<Rightarrow> DirEntry list \<Rightarrow> ScanInfo list \<Rightarrow> panic + ScanInfo list" where
  "GetCacheInfo_entries lib c fs [] scans = Inr scans"
| "GetCacheInfo_entries lib c fs (entry # entries) scans =
     (if IsDir entry then GetCacheInfo_entries lib c fs entries scans
      else if Ext (Name entry) \<noteq> ''.json'' then GetCacheInfo_entries lib c fs entries scans
      else case slice_to (Name entry) 6 of
             Inl p \<Rightarrow> Inl p
           | Inr first6 \<Rightarrow>
               if first6 = ''latest'' then GetCacheInfo_entries lib c fs entries scans
               else (let fileInfo = Info entry
                     in case loadFromFile lib fs (Join lib (basePath c) (Name entry)) of
                          Inl err \<Rightarrow> GetCacheInfo_entries lib c fs entries scans
                        | Inr scan \<Rightarrow>
                            (case fileInfo of
                               None \<Rightarrow> Inl NilPointerDereference
                             | Some sz \<Rightarrow>
                                 GetCacheInfo_entries lib c fs entries
                                   (scans @ [\<lparr>info_filename = Name entry,
                                              info_provider = Provider scan,
                                              info_framework = Framework scan,
                                              info_account = AccountID scan,
                                              info_timestamp = Timestamp scan,
                                              info_score = Score scan,
                                              info_size = sz\<rparr>]))))"

definition GetCacheInfo :: "library \<Rightarrow> Cache \<Rightarrow> filesystem \<Rightarrow> panic + (error + CacheInfo)" where
  "GetCacheInfo lib c fs =
     (case ReadDir fs (basePath c) of
        Inl err \<Rightarrow> Inr (Inl (Err (''failed to read cache directory: '' @ message err)))
      | Inr entries \<Rightarrow>
          (case GetCacheInfo_entries lib c fs entries [] of
             Inl p \<Rightarrow> Inl p
           | Inr scans \<Rightarrow>
               Inr (Inr \<lparr>info_cache_path = basePath c, info_total_files = length entries, info_scans = scans\<rparr>)))"

text \<open>
  The loop of \<open>ClearOlderThan\<close>: it threads the file system, which \<open>os.Remove\<close> changes,
  and the counter \<open>removed\<close>.
\<close>

fun ClearOlderThan_entries ::
    "library \<Rightarrow> Cache \<Rightarrow> int \<Rightarrow> DirEntry list \<Rightarrow> filesystem \<Rightarrow> nat \<Rightarrow> panic + filesystem \<times> nat" where
  "ClearOlderThan_entries lib c cutoff [] fs removed = Inr (fs, removed)"
| "ClearOlderThan_entries lib c cutoff (entry # entries) fs removed =
     (if IsDir entry then ClearOlderThan_entries lib c cutoff entries fs removed
      else case slice_to (Name entry) 6 of
             Inl p \<Rightarrow> Inl p
           | Inr first6 \<Rightarrow>
               if first6 = ''latest'' then ClearOlderThan_entries lib c cutoff entries fs removed
               else case loadFromFile lib fs (Join lib (basePath c) (Name entry)) of
                      Inl err \<Rightarrow> ClearOlderThan_entries lib c cutoff entries fs removed
                    | Inr scan \<Rightarrow>
                        if Timestamp scan < cutoff
                        then (case Remove fs (Join lib (basePath c) (Name entry)) of
                                (fs1, None) \<Rightarrow> ClearOlderThan_entries lib c cutoff entries fs1 (removed + 1)
                              | (fs1, Some err) \<Rightarrow> ClearOlderThan_entries lib c cutoff entries fs1 removed)
                        else ClearOlderThan_entries lib c cutoff entries fs removed)"

text \<open>\<open>now\<close> is the reading of \<open>time.Now()\<close>, \<open>duration\<close> the argument, in nanoseconds.\<close>

definition ClearOlderThan ::
    "library \<Rightarrow> Cache \<Rightarrow> filesystem \<Rightarrow> int \<Rightarrow> int \<Rightarrow> panic + filesystem \<times> (error + nat)" where
  "ClearOlderThan lib c fs now duration =
     (case ReadDir fs (basePath c) of
        Inl err \<Rightarrow> Inr (fs, Inl (Err (''failed to read cache directory: '' @ message err)))
      | Inr entries \<Rightarrow>
          (let cutoff = now + (- duration)
           in case ClearOlderThan_entries lib c cutoff entries fs 0 of
                Inl p \<Rightarrow> Inl p
              | Inr (fs1, removed) \<Rightarrow> Inr (fs1, Inr removed)))"

section \<open>Check results\<close>

text \<open>
  Modelled from the spec: the \<open>Priority\<close> type and its constants \<open>PriorityCritical\<close> ...
  \<open>PriorityInfo\<close>, declared in another file of package \<open>checks\<close>. The spec describes
  Priority as an enum independent of Severity, so the constants are the constructors of a
  datatype.
\<close>

datatype Priority = PriorityCritical | PriorityHigh | PriorityMedium | PriorityLow | PriorityInfo

text \<open>
  The struct every leaf check returns. \<open>Status\<close> and \<open>Severity\<close> are Go strings; a field
  a struct literal leaves out holds the empty string. \<open>Timestamp\<close> is an instant, as in
  the cache.
\<close>

record CheckResult =
  Control :: string
  Name :: string
  Status :: string
  Severity :: string
  Evidence :: string
  Remediation :: string
  RemediationDetail :: string
  ScreenshotGuide :: string
  ConsoleURL :: string
  Priority :: Priority
  Timestamp :: int
  Frameworks :: "string \<rightharpoonup> string"

text \<open>
  What a check reads besides its client: the clock (\<open>time.Now()\<close>, one reading for the
  whole run), and two members of package \<open>checks\<close> declared in another file, taken as
  parameters: the mapping table lookup \<open>GetFrameworkMappings\<close> and the helper
  \<open>truncateList\<close>.
\<close>

record env =
  Now :: int
  GetFrameworkMappings :: "string \<Rightarrow> (string \<rightharpoonup> string)"
  truncateList :: "string list \<Rightarrow> nat \<Rightarrow> string list"

subsection \<open>The catalogue of leaf checks\<close>

text \<open>
  Each checker's sub-checks are listed in the order its \<open>Run\<close> calls them. Beside the
  check itself an entry names what its body is built from: the number of resources its
  list call returned, the offending identifiers its loop collected (none when the list
  call failed), how the FAIL evidence shows them, and the resource noun of its
  "No ... found" evidence. The lemmas \<open>OpenSearchChecks_Run_eq\<close> and its three siblings
  show that a catalogue holds all the sub-checks of its checker.
\<close>

record 'c leaf =
  check :: "'c \<Rightarrow> env \<Rightarrow> error + CheckResult"
  listing :: "'c \<Rightarrow> error + nat"
  offenders :: "'c \<Rightarrow> string list"
  shown :: "env \<Rightarrow> string list \<Rightarrow> string list"
  noun :: string

section \<open>OpenSearch checks\<close>

text \<open>
  The SDK structures, with the fields the checks read. The client is the table of its
  responses: a list call answers an error or the listed resources, a describe call
  answers an error or the detail of the resource named. \<open>DescribeDomain\<close> answers the
  \<open>DomainStatus\<close> of its output, a member the SDK always sets. A variable that holds the
  output of a list call in the source holds the listed resources here.

  A loop over the resources that appends to a slice is a \<open>fold\<close> with the slice as its
  accumulator, \<open>continue\<close> being the accumulator unchanged; a search loop that sets a flag
  and breaks is \<open>list_ex\<close>. \<open>LogPublishingOptions\<close> is a Go map, \<open>None\<close> when nil, else
  its key-value pairs.
\<close>

record DomainInfo =
  DomainName :: "string option"

record EnabledOptions =
  Enabled :: "bool option"

record DomainEndpointOptions =
  EnforceHTTPS :: "bool option"

record VPCDerivedInfo =
  SubnetIds :: "string list"

record DomainStatus =
  EncryptionAtRestOptions :: "EnabledOptions option"
  NodeToNodeEncryptionOptions :: "EnabledOptions option"
  DomainEndpointOptions :: "DomainEndpointOptions option"
  VPCOptions :: "VPCDerivedInfo option"
  LogPublishingOptions :: "(string \<times> EnabledOptions) list option"
  AdvancedSecurityOptions :: "EnabledOptions option"

record OpenSearchClient =
  ListDomainNames :: "error + DomainInfo list"
  DescribeDomain :: "string option \<Rightarrow> error + DomainStatus"

definition OpenSearchChecks_CheckEncryptionAtRest_unencrypted :: "OpenSearchClient \<Rightarrow> DomainInfo list \<Rightarrow> string list" where
  "OpenSearchChecks_CheckEncryptionAtRest_unencrypted c domains =
     fold (\<lambda>domain unencrypted.
             case DescribeDomain c (DomainName domain) of
               Inl err \<Rightarrow> unencrypted
             | Inr detail \<Rightarrow>
                 if (case EncryptionAtRestOptions detail of None \<Rightarrow> True | Some opts \<Rightarrow> \<not> ToBool (Enabled opts))
                 then unencrypted @ [ToString (DomainName domain)]
                 else unencrypted)
       domains []"

definition OpenSearchChecks_CheckEncryptionAtRest :: "OpenSearchClient \<Rightarrow> env \<Rightarrow> error + CheckResult" where
  "OpenSearchChecks_CheckEncryptionAtRest c e =
     (case ListDomainNames c of
        Inl err \<Rightarrow> Inl err
      | Inr domains \<Rightarrow>
          (let unencrypted = OpenSearchChecks_CheckEncryptionAtRest_unencrypted c domains in
           if length unencrypted > 0 then
             Inr \<lparr>Control = ''CC6.3'',
                  Name = ''OpenSearch Encryption at Rest'',
                  Status = ''FAIL'',
                  Severity = ''CRITICAL'',
                  Evidence = fmt_d (length unencrypted) @ '' OpenSearch domains without encryption at rest: '' @ fmt_v unencrypted,
                  Remediation = ''Enable encryption at rest for OpenSearch domains'',
                  RemediationDetail = ''Update domain configuration to enable encryption at rest with KMS key'',
                  ScreenshotGuide = ''OpenSearch Console '' @ arrow @ '' Domains '' @ arrow @ '' Select domain '' @ arrow @ '' Security '' @ arrow @ '' Screenshot showing 'Encryption at rest: Enabled'' @ [CHR 0x27],
                  ConsoleURL = ''https://console.aws.amazon.com/aos/home#opensearch/domains'',
                  Priority = PriorityCritical,
                  Timestamp = Now e,
                  Frameworks = GetFrameworkMappings e ''OPENSEARCH_ENCRYPTION''\<rparr>
           else if length domains = 0 then
             Inr \<lparr>Control = ''CC6.3'',
                  Name = ''OpenSearch Encryption at Rest'',
                  Status = ''PASS'',
                  Severity = '''',
                  Evidence = ''No OpenSearch domains found'',
                  Remediation = '''',
                  RemediationDetail = '''',
                  ScreenshotGuide = '''',
                  ConsoleURL = '''',
                  Priority = PriorityInfo,
                  Timestamp = Now e,
                  Frameworks = GetFrameworkMappings e ''OPENSEARCH_ENCRYPTION''\<rparr>
           else
             Inr \<lparr>Control = ''CC6.3'',
                  Name = ''OpenSearch Encryption at Rest'',
                  Status = ''PASS'',
                  Severity = '''',
                  Evidence = ''All '' @ fmt_d (length domains) @ '' OpenSearch domains have encryption at rest enabled'',
                  Remediation = '''',
                  RemediationDetail = '''',
                  ScreenshotGuide = '''',
                  ConsoleURL = '''',
                  Priority = PriorityInfo,
                  Timestamp = Now e,
                  Frameworks = GetFrameworkMappings e ''OPENSEARCH_ENCRYPTION''\<rparr>))"

definition OpenSearchChecks_CheckNodeToNodeEncryption_noNodeEncryption :: "OpenSearchClient \<Rightarrow> DomainInfo list \<Rightarrow> string list" where
  "OpenSearchChecks_CheckNodeToNodeEncryption_noNodeEncryption c domains =
     fold (\<lambda>domain noNodeEncryption.
             case DescribeDomain c (DomainName domain) of
               Inl err \<Rightarrow> noNodeEncryption
             | Inr detail \<Rightarrow>
                 if (case NodeToNodeEncryptionOptions detail of None \<Rightarrow> True | Some opts \<Rightarrow> \<not> ToBool (Enabled opts))
                 then noNodeEncryption @ [ToString (DomainName domain)]
                 else noNodeEncryption)
       domains []"

definition OpenSearchChecks_CheckNodeToNodeEncryption :: "OpenSearchClient \<Rightarrow> env \<Rightarrow> error + CheckResult" where
  "OpenSearchChecks_CheckNodeToNodeEncryption c e =
     (case ListDomainNames c of
        Inl err \<Rightarrow> Inl err
      | Inr domains \<Rightarrow>
          (let noNodeEncryption = OpenSearchChecks_CheckNodeToNodeEncryption_noNodeEncryption c domains in
           if length noNodeEncryption > 0 then
             Inr \<lparr>Control = ''CC6.4'',
                  Name = ''OpenSearch Node-to-Node Encryption'',
                  Status = ''FAIL'',
                  Severity = ''HIGH'',
                  Evidence = fmt_d (length noNodeEncryption) @ '' OpenSearch domains without node-to-node encryption: '' @ fmt_v noNodeEncryption,
                  Remediation = ''Enable node-to-node encryption for OpenSearch domains'',
                  RemediationDetail = ''Update domain configuration to enable node-to-node encryption (may require blue/green deployment)'',
                  ScreenshotGuide = ''OpenSearch Console '' @ arrow @ '' Domains '' @ arrow @ '' Select domain '' @ arrow @ '' Security '' @ arrow @ '' Screenshot showing 'Node-to-node encryption: Enabled'' @ [CHR 0x27],
                  ConsoleURL = ''https://console.aws.amazon.com/aos/home#opensearch/domains'',
                  Priority = PriorityHigh,
                  Timestamp = Now e,
                  Frameworks = GetFrameworkMappings e ''OPENSEARCH_TRANSIT''\<rparr>
           else if length domains = 0 then
             Inr \<lparr>Control = ''CC6.4'',
                  Name = ''OpenSearch Node-to-Node Encryption'',
                  Status = ''PASS'',
                  Severity = '''',
                  Evidence = ''No OpenSearch domains found'',
                  Remediation = '''',
                  RemediationDetail = '''',
                  ScreenshotGuide = '''',
                  ConsoleURL = '''',
                  Priority = PriorityInfo,
                  Timestamp = Now e,
                  Frameworks = GetFrameworkMappings e ''OPENSEARCH_TRANSIT''\<rparr>
           else
             Inr \<lparr>Control = ''CC6.4'',
                  Name = ''OpenSearch Node-to-Node Encryption'',
                  Status = ''PASS'',
                  Severity = '''',
                  Evidence = ''All '' @ fmt_d (length domains) @ '' OpenSearch domains have node-to-node encryption enabled'',
                  Remediation = '''',
                  RemediationDetail = '''',
                  ScreenshotGuide = '''',
                  ConsoleURL = '''',
                  Priority = PriorityInfo,
                  Timestamp = Now e,
                  Frameworks = GetFrameworkMappings e ''OPENSEARCH_TRANSIT''\<rparr>))"

definition OpenSearchChecks_CheckHTTPS_noHTTPS :: "OpenSearchClient \<Rightarrow> DomainInfo list \<Rightarrow> string list" where
  "OpenSearchChecks_CheckHTTPS_noHTTPS c domains =
     fold (\<lambda>domain noHTTPS.
             case DescribeDomain c (DomainName domain) of
               Inl err \<Rightarrow> noHTTPS
             | Inr detail \<Rightarrow>
                 if (case DomainEndpointOptions detail of None \<Rightarrow> True | Some opts \<Rightarrow> \<not> ToBool (EnforceHTTPS opts))
                 then noHTTPS @ [ToString (DomainName domain)]
                 else noHTTPS)
       domains []"

definition OpenSearchChecks_CheckHTTPS :: "OpenSearchClient \<Rightarrow> env \<Rightarrow> error + CheckResult" where
  "OpenSearchChecks_CheckHTTPS c e =
     (case ListDomainNames c of
        Inl err \<Rightarrow> Inl err
      | Inr domains \<Rightarrow>
          (let noHTTPS = OpenSearchChecks_CheckHTTPS_noHTTPS c domains in
           if length noHTTPS > 0 then
             Inr \<lparr>Control = ''CC6.4'',
                  Name = ''OpenSearch HTTPS Required'',
                  Status = ''FAIL'',
                  Severity = ''HIGH'',
                  Evidence = fmt_d (length noHTTPS) @ '' OpenSearch domains not enforcing HTTPS: '' @ fmt_v noHTTPS,
                  Remediation = ''Enable HTTPS enforcement for OpenSearch domains'',
                  RemediationDetail = ''Update domain endpoint options to enforce HTTPS and use TLS 1.2 minimum'',
                  ScreenshotGuide = ''OpenSearch Console '' @ arrow @ '' Domains '' @ arrow @ '' Select domain '' @ arrow @ '' Security '' @ arrow @ '' Screenshot showing 'Require HTTPS: Yes'' @ [CHR 0x27],
                  ConsoleURL = ''https://console.aws.amazon.com/aos/home#opensearch/domains'',
                  Priority = PriorityHigh,
                  Timestamp = Now e,
                  Frameworks = GetFrameworkMappings e ''OPENSEARCH_HTTPS''\<rparr>
           else if length domains = 0 then
             Inr \<lparr>Control = ''CC6.4'',
                  Name = ''OpenSearch HTTPS Required'',
                  Status = ''PASS'',
                  Severity = '''',
                  Evidence = ''No OpenSearch domains found'',
                  Remediation = '''',
                  RemediationDetail = '''',
                  ScreenshotGuide = '''',
                  ConsoleURL = '''',
                  Priority = PriorityInfo,
                  Timestamp = Now e,
                  Frameworks = GetFrameworkMappings e ''OPENSEARCH_HTTPS''\<rparr>
           else
             Inr \<lparr>Control = ''CC6.4'',
                  Name = ''OpenSearch HTTPS Required'',
                  Status = ''PASS'',
                  Severity = '''',
                  Evidence = ''All '' @ fmt_d (length domains) @ '' OpenSearch domains enforce HTTPS'',
                  Remediation = '''',
                  RemediationDetail = '''',
                  ScreenshotGuide = '''',
                  ConsoleURL = '''',
                  Priority = PriorityInfo,
                  Timestamp = Now e,
                  Frameworks = GetFrameworkMappings e ''OPENSEARCH_HTTPS''\<rparr>))"

definition OpenSearchChecks_CheckVPCDeployment_publicDomains :: "OpenSearchClient \<Rightarrow> DomainInfo list \<Rightarrow> string list" where
  "OpenSearchChecks_CheckVPCDeployment_publicDomains c domains =
     fold (\<lambda>domain publicDomains.
             case DescribeDomain c (DomainName domain) of
               Inl err \<Rightarrow> publicDomains
             | Inr detail \<Rightarrow>
                 if (case VPCOptions detail of None \<Rightarrow> True | Some opts \<Rightarrow> length (SubnetIds opts) = 0)
                 then publicDomains @ [ToString (DomainName domain)]
                 else publicDomains)
       domains []"

definition OpenSearchChecks_CheckVPCDeployment :: "OpenSearchClient \<Rightarrow> env \<Rightarrow> error + CheckResult" where
  "OpenSearchChecks_CheckVPCDeployment c e =
     (case ListDomainNames c of
        Inl err \<Rightarrow> Inl err
      | Inr domains \<Rightarrow>
          (let publicDomains = OpenSearchChecks_CheckVPCDeployment_publicDomains c domains in
           if length publicDomains > 0 then
             Inr \<lparr>Control = ''CC6.1'',
                  Name = ''OpenSearch VPC Deployment'',
                  Status = ''FAIL'',
                  Severity = ''CRITICAL'',
                  Evidence = fmt_d (length publicDomains) @ '' OpenSearch domains are publicly accessible (not in VPC): '' @ fmt_v publicDomains,
                  Remediation = ''Deploy OpenSearch domains within a VPC'',
                  RemediationDetail = ''Create new domain in VPC. Note: Moving from public to VPC requires recreating the domain.'',
                  ScreenshotGuide = ''OpenSearch Console '' @ arrow @ '' Domains '' @ arrow @ '' Select domain '' @ arrow @ '' Network '' @ arrow @ '' Screenshot showing VPC configuration'',
                  ConsoleURL = ''https://console.aws.amazon.com/aos/home#opensearch/domains'',
                  Priority = PriorityCritical,
                  Timestamp = Now e,
                  Frameworks = GetFrameworkMappings e ''OPENSEARCH_NETWORK''\<rparr>
           else if length domains = 0 then
             Inr \<lparr>Control = ''CC6.1'',
                  Name = ''OpenSearch VPC Deployment'',
                  Status = ''PASS'',
                  Severity = '''',
                  Evidence = ''No OpenSearch domains found'',
                  Remediation = '''',
                  RemediationDetail = '''',
                  ScreenshotGuide = '''',
                  ConsoleURL = '''',
                  Priority = PriorityInfo,
                  Timestamp = Now e,
                  Frameworks = GetFrameworkMappings e ''OPENSEARCH_NETWORK''\<rparr>
           else
             Inr \<lparr>Control = ''CC6.1'',
                  Name = ''OpenSearch VPC Deployment'',
                  Status = ''PASS'',
                  Severity = '''',
                  Evidence = ''All '' @ fmt_d (length domains) @ '' OpenSearch domains are deployed in VPC'',
                  Remediation = '''',
                  RemediationDetail = '''',
                  ScreenshotGuide = '''',
                  ConsoleURL = '''',
                  Priority = PriorityInfo,
                  Timestamp = Now e,
                  Frameworks = GetFrameworkMappings e ''OPENSEARCH_NETWORK''\<rparr>))"

definition OpenSearchChecks_CheckAuditLogs_noAuditLogs :: "OpenSearchClient \<Rightarrow> DomainInfo list \<Rightarrow> string list" where
  "OpenSearchChecks_CheckAuditLogs_noAuditLogs c domains =
     fold (\<lambda>domain noAuditLogs.
             case DescribeDomain c (DomainName domain) of
               Inl err \<Rightarrow> noAuditLogs
             | Inr detail \<Rightarrow>
                 (case LogPublishingOptions detail of
                    None \<Rightarrow> noAuditLogs @ [ToString (DomainName domain)]
                  | Some opts \<Rightarrow>
                      (let auditLogEnabled =
                             list_ex (\<lambda>(logType, logConfig).
                                        logType = ''AUDIT_LOGS'' \<and> ToBool (Enabled logConfig)) opts
                       in if \<not> auditLogEnabled
                          then noAuditLogs @ [ToString (DomainName domain)]
                          else noAuditLogs)))
       domains []"

definition OpenSearchChecks_CheckAuditLogs :: "OpenSearchClient \<Rightarrow> env \<Rightarrow> error + CheckResult" where
  "OpenSearchChecks_CheckAuditLogs c e =
     (case ListDomainNames c of
        Inl err \<Rightarrow> Inl err
      | Inr domains \<Rightarrow>
          (let noAuditLogs = OpenSearchChecks_CheckAuditLogs_noAuditLogs c domains in
           if length noAuditLogs > 0 then
             Inr \<lparr>Control = ''CC7.1'',
                  Name = ''OpenSearch Audit Logs'',
                  Status = ''FAIL'',
                  Severity = ''HIGH'',
                  Evidence = fmt_d (length noAuditLogs) @ '' OpenSearch domains without audit logging: '' @ fmt_v noAuditLogs,
                  Remediation = ''Enable audit logging for OpenSearch domains'',
                  RemediationDetail = ''Configure log publishing options to enable AUDIT_LOGS to CloudWatch Logs'',
                  ScreenshotGuide = ''OpenSearch Console '' @ arrow @ '' Domains '' @ arrow @ '' Select domain '' @ arrow @ '' Logs '' @ arrow @ '' Screenshot showing 'Audit logs: Enabled'' @ [CHR 0x27],
                  ConsoleURL = ''https://console.aws.amazon.com/aos/home#opensearch/domains'',
                  Priority = PriorityHigh,
                  Timestamp = Now e,
                  Frameworks = GetFrameworkMappings e ''OPENSEARCH_LOGGING''\<rparr>
           else if length domains = 0 then
             Inr \<lparr>Control = ''CC7.1'',
                  Name = ''OpenSearch Audit Logs'',
                  Status = ''PASS'',
                  Severity = '''',
                  Evidence = ''No OpenSearch domains found'',
                  Remediation = '''',
                  RemediationDetail = '''',
                  ScreenshotGuide = '''',
                  ConsoleURL = '''',
                  Priority = PriorityInfo,
                  Timestamp = Now e,
                  Frameworks = GetFrameworkMappings e ''OPENSEARCH_LOGGING''\<rparr>
           else
             Inr \<lparr>Control = ''CC7.1'',
                  Name = ''OpenSearch Audit Logs'',
                  Status = ''PASS'',
                  Severity = '''',
                  Evidence = ''All '' @ fmt_d (length domains) @ '' OpenSearch domains have audit logging enabled'',
                  Remediation = '''',
                  RemediationDetail = '''',
                  ScreenshotGuide = '''',
                  ConsoleURL = '''',
                  Priority = PriorityInfo,
                  Timestamp = Now e,
                  Frameworks = GetFrameworkMappings e ''OPENSEARCH_LOGGING''\<rparr>))"

definition OpenSearchChecks_CheckFineGrainedAccessControl_noFGAC :: "OpenSearchClient \<Rightarrow> DomainInfo list \<Rightarrow> string list" where
  "OpenSearchChecks_CheckFineGrainedAccessControl_noFGAC c domains =
     fold (\<lambda>domain noFGAC.
             case DescribeDomain c (DomainName domain) of
               Inl err \<Rightarrow> noFGAC
             | Inr detail \<Rightarrow>
                 if (case AdvancedSecurityOptions detail of None \<Rightarrow> True | Some opts \<Rightarrow> \<not> ToBool (Enabled opts))
                 then noFGAC @ [ToString (DomainName domain)]
                 else noFGAC)
       domains []"

definition OpenSearchChecks_CheckFineGrainedAccessControl :: "OpenSearchClient \<Rightarrow> env \<Rightarrow> error + CheckResult" where
  "OpenSearchChecks_CheckFineGrainedAccessControl c e =
     (case ListDomainNames c of
        Inl err \<Rightarrow> Inl err
      | Inr domains \<Rightarrow>
          (let noFGAC = OpenSearchChecks_CheckFineGrainedAccessControl_noFGAC c domains in
           if length noFGAC > 0 then
             Inr \<lparr>Control = ''CC6.6'',
                  Name = ''OpenSearch Fine-Grained Access Control'',
                  Status = ''FAIL'',
                  Severity = ''HIGH'',
                  Evidence = fmt_d (length noFGAC) @ '' OpenSearch domains without fine-grained access control: '' @ fmt_v noFGAC,
                  Remediation = ''Enable fine-grained access control for OpenSearch domains'',
                  RemediationDetail = ''Enable Advanced Security Options with fine-grained access control. Requires encryption at rest and node-to-node encryption.'',
                  ScreenshotGuide = ''OpenSearch Console '' @ arrow @ '' Domains '' @ arrow @ '' Select domain '' @ arrow @ '' Security '' @ arrow @ '' Screenshot showing 'Fine-grained access control: Enabled'' @ [CHR 0x27],
                  ConsoleURL = ''https://console.aws.amazon.com/aos/home#opensearch/domains'',
                  Priority = PriorityHigh,
                  Timestamp = Now e,
                  Frameworks = GetFrameworkMappings e ''OPENSEARCH_ACCESS''\<rparr>
           else if length domains = 0 then
             Inr \<lparr>Control = ''CC6.6'',
                  Name = ''OpenSearch Fine-Grained Access Control'',
                  Status = ''PASS'',
                  Severity = '''',
                  Evidence = ''No OpenSearch domains found'',
                  Remediation = '''',
                  RemediationDetail = '''',
                  ScreenshotGuide = '''',
                  ConsoleURL = '''',
                  Priority = PriorityInfo,
                  Timestamp = Now e,
                  Frameworks = GetFrameworkMappings e ''OPENSEARCH_ACCESS''\<rparr>
           else
             Inr \<lparr>Control = ''CC6.6'',
                  Name = ''OpenSearch Fine-Grained Access Control'',
                  Status = ''PASS'',
                  Severity = '''',
                  Evidence = ''All '' @ fmt_d (length domains) @ '' OpenSearch domains have fine-grained access control enabled'',
                  Remediation = '''',
                  RemediationDetail = '''',
                  ScreenshotGuide = '''',
                  ConsoleURL = '''',
                  Priority = PriorityInfo,
                  Timestamp = Now e,
                  Frameworks = GetFrameworkMappings e ''OPENSEARCH_ACCESS''\<rparr>))"
definition OpenSearchChecks_Run :: "OpenSearchClient \<Rightarrow> env \<Rightarrow> CheckResult list \<times> error option" where
  "OpenSearchChecks_Run c e =
     (let results = [];
          results = (case OpenSearchChecks_CheckEncryptionAtRest c e of Inr result \<Rightarrow> results @ [result] | Inl err \<Rightarrow> results);
          results = (case OpenSearchChecks_CheckNodeToNodeEncryption c e of Inr result \<Rightarrow> results @ [result] | Inl err \<Rightarrow> results);
          results = (case OpenSearchChecks_CheckHTTPS c e of Inr result \<Rightarrow> results @ [result] | Inl err \<Rightarrow> results);
          results = (case OpenSearchChecks_CheckVPCDeployment c e of Inr result \<Rightarrow> results @ [result] | Inl err \<Rightarrow> results);
          results = (case OpenSearchChecks_CheckAuditLogs c e of Inr result \<Rightarrow> results @ [result] | Inl err \<Rightarrow> results);
          results = (case OpenSearchChecks_CheckFineGrainedAccessControl c e of Inr result \<Rightarrow> results @ [result] | Inl err \<Rightarrow> results)
      in (results, None))"

definition OpenSearchChecks_leaves :: "OpenSearchClient leaf list" where
  "OpenSearchChecks_leaves =
    [\<lparr>check = OpenSearchChecks_CheckEncryptionAtRest,
      listing = (\<lambda>c. map_sum id length (ListDomainNames c)),
      offenders = (\<lambda>c. case ListDomainNames c of Inl err \<Rightarrow> [] | Inr domains \<Rightarrow> OpenSearchChecks_CheckEncryptionAtRest_unencrypted c domains),
      shown = (\<lambda>e items. items),
      noun = ''OpenSearch domains''\<rparr>,
     \<lparr>check = OpenSearchChecks_CheckNodeToNodeEncryption,
      listing = (\<lambda>c. map_sum id length (ListDomainNames c)),
      offenders = (\<lambda>c. case ListDomainNames c of Inl err \<Rightarrow> [] | Inr domains \<Rightarrow> OpenSearchChecks_CheckNodeToNodeEncryption_noNodeEncryption c domains),
      shown = (\<lambda>e items. items),
      noun = ''OpenSearch domains''\<rparr>,
     \<lparr>check = OpenSearchChecks_CheckHTTPS,
      listing = (\<lambda>c. map_sum id length (ListDomainNames c)),
      offenders = (\<lambda>c. case ListDomainNames c of Inl err \<Rightarrow> [] | Inr domains \<Rightarrow> OpenSearchChecks_CheckHTTPS_noHTTPS c domains),
      shown = (\<lambda>e items. items),
      noun = ''OpenSearch domains''\<rparr>,
     \<lparr>check = OpenSearchChecks_CheckVPCDeployment,
      listing = (\<lambda>c. map_sum id length (ListDomainNames c)),
      offenders = (\<lambda>c. case ListDomainNames c of Inl err \<Rightarrow> [] | Inr domains \<Rightarrow> OpenSearchChecks_CheckVPCDeployment_publicDomains c domains),
      shown = (\<lambda>e items. items),
      noun = ''OpenSearch domains''\<rparr>,
     \<lparr>check = OpenSearchChecks_CheckAuditLogs,
      listing = (\<lambda>c. map_sum id length (ListDomainNames c)),
      offenders = (\<lambda>c. case ListDomainNames c of Inl err \<Rightarrow> [] | Inr domains \<Rightarrow> OpenSearchChecks_CheckAuditLogs_noAuditLogs c domains),
      shown = (\<lambda>e items. items),
      noun = ''OpenSearch domains''\<rparr>,
     \<lparr>check = OpenSearchChecks_CheckFineGrainedAccessControl,
      listing = (\<lambda>c. map_sum id length (ListDomainNames c)),
      offenders = (\<lambda>c. case ListDomainNames c of Inl err \<Rightarrow> [] | Inr domains \<Rightarrow> OpenSearchChecks_CheckFineGrainedAccessControl_noFGAC c domains),
      shown = (\<lambda>e items. items),
      noun = ''OpenSearch domains''\<rparr>]"
section \<open>ElastiCache checks\<close>

record CacheCluster =
  CacheClusterId :: "string option"
  AtRestEncryptionEnabled :: "bool option"
  TransitEncryptionEnabled :: "bool option"
  AutoMinorVersionUpgrade :: "bool option"

record ReplicationGroup =
  ReplicationGroupId :: "string option"
  AuthTokenEnabled :: "bool option"
  SnapshotRetentionLimit :: "int option"

record ElastiCacheClient =
  DescribeCacheClusters :: "error + CacheCluster list"
  DescribeReplicationGroups :: "error + ReplicationGroup list"

definition ElastiCacheChecks_CheckEncryptionAtRest_unencrypted :: "ElastiCacheClient \<Rightarrow> CacheCluster list \<Rightarrow> string list" where
  "ElastiCacheChecks_CheckEncryptionAtRest_unencrypted c clusters =
     fold (\<lambda>cluster unencrypted.
             if \<not> ToBool (AtRestEncryptionEnabled cluster)
             then unencrypted @ [ToString (CacheClusterId cluster)]
             else unencrypted)
       clusters []"

definition ElastiCacheChecks_CheckEncryptionAtRest :: "ElastiCacheClient \<Rightarrow> env \<Rightarrow> error + CheckResult" where
  "ElastiCacheChecks_CheckEncryptionAtRest c e =
     (case DescribeCacheClusters c of
        Inl err \<Rightarrow> Inl err
      | Inr clusters \<Rightarrow>
          (let unencrypted = ElastiCacheChecks_CheckEncryptionAtRest_unencrypted c clusters in
           if length unencrypted > 0 then
             Inr \<lparr>Control = ''CC6.3'',
                  Name = ''ElastiCache Encryption at Rest'',
                  Status = ''FAIL'',
                  Severity = ''HIGH'',
                  Evidence = fmt_d (length unencrypted) @ '' ElastiCache clusters without encryption at rest: '' @ fmt_v unencrypted,
                  Remediation = ''Enable encryption at rest for ElastiCache clusters'',
                  RemediationDetail = ''Encryption at rest must be enabled when creating the cluster. Create new cluster with AtRestEncryptionEnabled=true and migrate data.'',
                  ScreenshotGuide = ''ElastiCache Console '' @ arrow @ '' Redis/Memcached '' @ arrow @ '' Select cluster '' @ arrow @ '' Description '' @ arrow @ '' Screenshot showing 'Encryption at rest: Enabled'' @ [CHR 0x27],
                  ConsoleURL = ''https://console.aws.amazon.com/elasticache/'',
                  Priority = PriorityHigh,
                  Timestamp = Now e,
                  Frameworks = GetFrameworkMappings e ''ELASTICACHE_ENCRYPTION''\<rparr>
           else if length clusters = 0 then
             Inr \<lparr>Control = ''CC6.3'',
                  Name = ''ElastiCache Encryption at Rest'',
                  Status = ''PASS'',
                  Severity = '''',
                  Evidence = ''No ElastiCache clusters found'',
                  Remediation = '''',
                  RemediationDetail = '''',
                  ScreenshotGuide = '''',
                  ConsoleURL = '''',
                  Priority = PriorityInfo,
                  Timestamp = Now e,
                  Frameworks = GetFrameworkMappings e ''ELASTICACHE_ENCRYPTION''\<rparr>
           else
             Inr \<lparr>Control = ''CC6.3'',
                  Name = ''ElastiCache Encryption at Rest'',
                  Status = ''PASS'',
                  Severity = '''',
                  Evidence = ''All '' @ fmt_d (length clusters) @ '' ElastiCache clusters have encryption at rest enabled'',
                  Remediation = '''',
                  RemediationDetail = '''',
                  ScreenshotGuide = '''',
                  ConsoleURL = '''',
                  Priority = PriorityInfo,
                  Timestamp = Now e,
                  Frameworks = GetFrameworkMappings e ''ELASTICACHE_ENCRYPTION''\<rparr>))"

definition ElastiCacheChecks_CheckEncryptionInTransit_noTransitEncryption :: "ElastiCacheClient \<Rightarrow> CacheCluster list \<Rightarrow> string list" where
  "ElastiCacheChecks_CheckEncryptionInTransit_noTransitEncryption c clusters =
     fold (\<lambda>cluster noTransitEncryption.
             if \<not> ToBool (TransitEncryptionEnabled cluster)
             then noTransitEncryption @ [ToString (CacheClusterId cluster)]
             else noTransitEncryption)
       clusters []"

definition ElastiCacheChecks_CheckEncryptionInTransit :: "ElastiCacheClient \<Rightarrow> env \<Rightarrow> error + CheckResult" where
  "ElastiCacheChecks_CheckEncryptionInTransit c e =
     (case DescribeCacheClusters c of
        Inl err \<Rightarrow> Inl err
      | Inr clusters \<Rightarrow>
          (let noTransitEncryption = ElastiCacheChecks_CheckEncryptionInTransit_noTransitEncryption c clusters in
           if length noTransitEncryption > 0 then
             Inr \<lparr>Control = ''CC6.4'',
                  Name = ''ElastiCache Encryption in Transit'',
                  Status = ''FAIL'',
                  Severity = ''HIGH'',
                  Evidence = fmt_d (length noTransitEncryption) @ '' ElastiCache clusters without encryption in transit: '' @ fmt_v noTransitEncryption,
                  Remediation = ''Enable encryption in transit (TLS) for ElastiCache clusters'',
                  RemediationDetail = ''Transit encryption must be enabled when creating the cluster. Create new cluster with TransitEncryptionEnabled=true.'',
                  ScreenshotGuide = ''ElastiCache Console '' @ arrow @ '' Select cluster '' @ arrow @ '' Description '' @ arrow @ '' Screenshot showing 'Encryption in transit: Enabled'' @ [CHR 0x27],
                  ConsoleURL = ''https://console.aws.amazon.com/elasticache/'',
                  Priority = PriorityHigh,
                  Timestamp = Now e,
                  Frameworks = GetFrameworkMappings e ''ELASTICACHE_TRANSIT''\<rparr>
           else if length clusters = 0 then
             Inr \<lparr>Control = ''CC6.4'',
                  Name = ''ElastiCache Encryption in Transit'',
                  Status = ''PASS'',
                  Severity = '''',
                  Evidence = ''No ElastiCache clusters found'',
                  Remediation = '''',
                  RemediationDetail = '''',
                  ScreenshotGuide = '''',
                  ConsoleURL = '''',
                  Priority = PriorityInfo,
                  Timestamp = Now e,
                  Frameworks = GetFrameworkMappings e ''ELASTICACHE_TRANSIT''\<rparr>
           else
             Inr \<lparr>Control = ''CC6.4'',
                  Name = ''ElastiCache Encryption in Transit'',
                  Status = ''PASS'',
                  Severity = '''',
                  Evidence = ''All '' @ fmt_d (length clusters) @ '' ElastiCache clusters have encryption in transit enabled'',
                  Remediation = '''',
                  RemediationDetail = '''',
                  ScreenshotGuide = '''',
                  ConsoleURL = '''',
                  Priority = PriorityInfo,
                  Timestamp = Now e,
                  Frameworks = GetFrameworkMappings e ''ELASTICACHE_TRANSIT''\<rparr>))"

definition ElastiCacheChecks_CheckAutoMinorVersionUpgrade_noAutoUpgrade :: "ElastiCacheClient \<Rightarrow> CacheCluster list \<Rightarrow> string list" where
  "ElastiCacheChecks_CheckAutoMinorVersionUpgrade_noAutoUpgrade c clusters =
     fold (\<lambda>cluster noAutoUpgrade.
             if \<not> ToBool (AutoMinorVersionUpgrade cluster)
             then noAutoUpgrade @ [ToString (CacheClusterId cluster)]
             else noAutoUpgrade)
       clusters []"

definition ElastiCacheChecks_CheckAutoMinorVersionUpgrade :: "ElastiCacheClient \<Rightarrow> env \<Rightarrow> error + CheckResult" where
  "ElastiCacheChecks_CheckAutoMinorVersionUpgrade c e =
     (case DescribeCacheClusters c of
        Inl err \<Rightarrow> Inl err
      | Inr clusters \<Rightarrow>
          (let noAutoUpgrade = ElastiCacheChecks_CheckAutoMinorVersionUpgrade_noAutoUpgrade c clusters in
           if length noAutoUpgrade > 0 then
             Inr \<lparr>Control = ''CC7.5'',
                  Name = ''ElastiCache Auto Minor Version Upgrade'',
                  Status = ''FAIL'',
                  Severity = ''MEDIUM'',
                  Evidence = fmt_d (length noAutoUpgrade) @ '' ElastiCache clusters without auto minor version upgrade: '' @ fmt_v noAutoUpgrade,
                  Remediation = ''Enable auto minor version upgrade for ElastiCache clusters'',
                  RemediationDetail = ''aws elasticache modify-cache-cluster --cache-cluster-id [CLUSTER_ID] --auto-minor-version-upgrade'',
                  ScreenshotGuide = ''ElastiCache Console '' @ arrow @ '' Select cluster '' @ arrow @ '' Maintenance '' @ arrow @ '' Screenshot showing 'Auto minor version upgrade: Yes'' @ [CHR 0x27],
                  ConsoleURL = ''https://console.aws.amazon.com/elasticache/'',
                  Priority = PriorityMedium,
                  Timestamp = Now e,
                  Frameworks = GetFrameworkMappings e ''ELASTICACHE_PATCHING''\<rparr>
           else if length clusters = 0 then
             Inr \<lparr>Control = ''CC7.5'',
                  Name = ''ElastiCache Auto Minor Version Upgrade'',
                  Status = ''PASS'',
                  Severity = '''',
                  Evidence = ''No ElastiCache clusters found'',
                  Remediation = '''',
                  RemediationDetail = '''',
                  ScreenshotGuide = '''',
                  ConsoleURL = '''',
                  Priority = PriorityInfo,
                  Timestamp = Now e,
                  Frameworks = GetFrameworkMappings e ''ELASTICACHE_PATCHING''\<rparr>
           else
             Inr \<lparr>Control = ''CC7.5'',
                  Name = ''ElastiCache Auto Minor Version Upgrade'',
                  Status = ''PASS'',
                  Severity = '''',
                  Evidence = ''All '' @ fmt_d (length clusters) @ '' ElastiCache clusters have auto minor version upgrade enabled'',
                  Remediation = '''',
                  RemediationDetail = '''',
                  ScreenshotGuide = '''',
                  ConsoleURL = '''',
                  Priority = PriorityInfo,
                  Timestamp = Now e,
                  Frameworks = GetFrameworkMappings e ''ELASTICACHE_PATCHING''\<rparr>))"

definition ElastiCacheChecks_CheckAuthToken_noAuth :: "ElastiCacheClient \<Rightarrow> ReplicationGroup list \<Rightarrow> string list" where
  "ElastiCacheChecks_CheckAuthToken_noAuth c repGroups =
     fold (\<lambda>rg noAuth.
             if \<not> ToBool (AuthTokenEnabled rg)
             then noAuth @ [ToString (ReplicationGroupId rg)]
             else noAuth)
       repGroups []"

definition ElastiCacheChecks_CheckAuthToken :: "ElastiCacheClient \<Rightarrow> env \<Rightarrow> error + CheckResult" where
  "ElastiCacheChecks_CheckAuthToken c e =
     (case DescribeReplicationGroups c of
        Inl err \<Rightarrow> Inl err
      | Inr repGroups \<Rightarrow>
          (let noAuth = ElastiCacheChecks_CheckAuthToken_noAuth c repGroups in
           if length noAuth > 0 then
             Inr \<lparr>Control = ''CC6.6'',
                  Name = ''ElastiCache Redis AUTH Token'',
                  Status = ''FAIL'',
                  Severity = ''HIGH'',
                  Evidence = fmt_d (length noAuth) @ '' Redis replication groups without AUTH token: '' @ fmt_v noAuth,
                  Remediation = ''Enable AUTH token for Redis replication groups'',
                  RemediationDetail = ''AUTH token must be enabled when creating the replication group. Create new group with AuthToken parameter set.'',
                  ScreenshotGuide = ''ElastiCache Console '' @ arrow @ '' Redis '' @ arrow @ '' Select replication group '' @ arrow @ '' Description '' @ arrow @ '' Screenshot showing 'AUTH token: Enabled'' @ [CHR 0x27],
                  ConsoleURL = ''https://console.aws.amazon.com/elasticache/home#redis:'',
                  Priority = PriorityHigh,
                  Timestamp = Now e,
                  Frameworks = GetFrameworkMappings e ''ELASTICACHE_AUTH''\<rparr>
           else if length repGroups = 0 then
             Inr \<lparr>Control = ''CC6.6'',
                  Name = ''ElastiCache Redis AUTH Token'',
                  Status = ''PASS'',
                  Severity = '''',
                  Evidence = ''No Redis replication groups found'',
                  Remediation = '''',
                  RemediationDetail = '''',
                  ScreenshotGuide = '''',
                  ConsoleURL = '''',
                  Priority = PriorityInfo,
                  Timestamp = Now e,
                  Frameworks = GetFrameworkMappings e ''ELASTICACHE_AUTH''\<rparr>
           else
             Inr \<lparr>Control = ''CC6.6'',
                  Name = ''ElastiCache Redis AUTH Token'',
                  Status = ''PASS'',
                  Severity = '''',
                  Evidence = ''All '' @ fmt_d (length repGroups) @ '' Redis replication groups have AUTH token enabled'',
                  Remediation = '''',
                  RemediationDetail = '''',
                  ScreenshotGuide = '''',
                  ConsoleURL = '''',
                  Priority = PriorityInfo,
                  Timestamp = Now e,
                  Frameworks = GetFrameworkMappings e ''ELASTICACHE_AUTH''\<rparr>))"

definition ElastiCacheChecks_CheckBackupRetention_lowRetention :: "ElastiCacheClient \<Rightarrow> ReplicationGroup list \<Rightarrow> string list" where
  "ElastiCacheChecks_CheckBackupRetention_lowRetention c repGroups =
     fold (\<lambda>rg lowRetention.
             case SnapshotRetentionLimit rg of
               None \<Rightarrow> lowRetention
             | Some limit \<Rightarrow>
                 if limit < 7
                 then lowRetention @ [ToString (ReplicationGroupId rg) @ '' ('' @ fmt_d_int limit @ '' days)'']
                 else lowRetention)
       repGroups []"

definition ElastiCacheChecks_CheckBackupRetention :: "ElastiCacheClient \<Rightarrow> env \<Rightarrow> error + CheckResult" where
  "ElastiCacheChecks_CheckBackupRetention c e =
     (case DescribeReplicationGroups c of
        Inl err \<Rightarrow> Inl err
      | Inr repGroups \<Rightarrow>
          (let lowRetention = ElastiCacheChecks_CheckBackupRetention_lowRetention c repGroups in
           if length lowRetention > 0 then
             Inr \<lparr>Control = ''A1.2'',
                  Name = ''ElastiCache Backup Retention'',
                  Status = ''FAIL'',
                  Severity = ''MEDIUM'',
                  Evidence = fmt_d (length lowRetention) @ '' Redis groups with backup retention < 7 days: '' @ fmt_v lowRetention,
                  Remediation = ''Increase snapshot retention period to at least 7 days'',
                  RemediationDetail = ''aws elasticache modify-replication-group --replication-group-id [GROUP_ID] --snapshot-retention-limit 7'',
                  ScreenshotGuide = ''ElastiCache Console '' @ arrow @ '' Redis '' @ arrow @ '' Select group '' @ arrow @ '' Backup '' @ arrow @ '' Screenshot showing retention >= 7 days'',
                  ConsoleURL = ''https://console.aws.amazon.com/elasticache/home#redis:'',
                  Priority = PriorityMedium,
                  Timestamp = Now e,
                  Frameworks = GetFrameworkMappings e ''ELASTICACHE_BACKUP''\<rparr>
           else if length repGroups = 0 then
             Inr \<lparr>Control = ''A1.2'',
                  Name = ''ElastiCache Backup Retention'',
                  Status = ''PASS'',
                  Severity = '''',
                  Evidence = ''No Redis replication groups found'',
                  Remediation = '''',
                  RemediationDetail = '''',
                  ScreenshotGuide = '''',
                  ConsoleURL = '''',
                  Priority = PriorityInfo,
                  Timestamp = Now e,
                  Frameworks = GetFrameworkMappings e ''ELASTICACHE_BACKUP''\<rparr>
           else
             Inr \<lparr>Control = ''A1.2'',
                  Name = ''ElastiCache Backup Retention'',
                  Status = ''PASS'',
                  Severity = '''',
                  Evidence = ''All '' @ fmt_d (length repGroups) @ '' Redis replication groups have adequate backup retention'',
                  Remediation = '''',
                  RemediationDetail = '''',
                  ScreenshotGuide = '''',
                  ConsoleURL = '''',
                  Priority = PriorityInfo,
                  Timestamp = Now e,
                  Frameworks = GetFrameworkMappings e ''ELASTICACHE_BACKUP''\<rparr>))"
definition ElastiCacheChecks_Run :: "ElastiCacheClient \<Rightarrow> env \<Rightarrow> CheckResult list \<times> error option" where
  "ElastiCacheChecks_Run c e =
     (let results = [];
          results = (case ElastiCacheChecks_CheckEncryptionAtRest c e of Inr result \<Rightarrow> results @ [result] | Inl err \<Rightarrow> results);
          results = (case ElastiCacheChecks_CheckEncryptionInTransit c e of Inr result \<Rightarrow> results @ [result] | Inl err \<Rightarrow> results);
          results = (case ElastiCacheChecks_CheckAutoMinorVersionUpgrade c e of Inr result \<Rightarrow> results @ [result] | Inl err \<Rightarrow> results);
          results = (case ElastiCacheChecks_CheckAuthToken c e of Inr result \<Rightarrow> results @ [result] | Inl err \<Rightarrow> results);
          results = (case ElastiCacheChecks_CheckBackupRetention c e of Inr result \<Rightarrow> results @ [result] | Inl err \<Rightarrow> results)
      in (results, None))"

definition ElastiCacheChecks_leaves :: "ElastiCacheClient leaf list" where
  "ElastiCacheChecks_leaves =
    [\<lparr>check = ElastiCacheChecks_CheckEncryptionAtRest,
      listing = (\<lambda>c. map_sum id length (DescribeCacheClusters c)),
      offenders = (\<lambda>c. case DescribeCacheClusters c of Inl err \<Rightarrow> [] | Inr clusters \<Rightarrow> ElastiCacheChecks_CheckEncryptionAtRest_unencrypted c clusters),
      shown = (\<lambda>e items. items),
      noun = ''ElastiCache clusters''\<rparr>,
     \<lparr>check = ElastiCacheChecks_CheckEncryptionInTransit,
      listing = (\<lambda>c. map_sum id length (DescribeCacheClusters c)),
      offenders = (\<lambda>c. case DescribeCacheClusters c of Inl err \<Rightarrow> [] | Inr clusters \<Rightarrow> ElastiCacheChecks_CheckEncryptionInTransit_noTransitEncryption c clusters),
      shown = (\<lambda>e items. items),
      noun = ''ElastiCache clusters''\<rparr>,
     \<lparr>check = ElastiCacheChecks_CheckAutoMinorVersionUpgrade,
      listing = (\<lambda>c. map_sum id length (DescribeCacheClusters c)),
      offenders = (\<lambda>c. case DescribeCacheClusters c of Inl err \<Rightarrow> [] | Inr clusters \<Rightarrow> ElastiCacheChecks_CheckAutoMinorVersionUpgrade_noAutoUpgrade c clusters),
      shown = (\<lambda>e items. items),
      noun = ''ElastiCache clusters''\<rparr>,
     \<lparr>check = ElastiCacheChecks_CheckAuthToken,
      listing = (\<lambda>c. map_sum id length (DescribeReplicationGroups c)),
      offenders = (\<lambda>c. case DescribeReplicationGroups c of Inl err \<Rightarrow> [] | Inr repGroups \<Rightarrow> ElastiCacheChecks_CheckAuthToken_noAuth c repGroups),
      shown = (\<lambda>e items. items),
      noun = ''Redis replication groups''\<rparr>,
     \<lparr>check = ElastiCacheChecks_CheckBackupRetention,
      listing = (\<lambda>c. map_sum id length (DescribeReplicationGroups c)),
      offenders = (\<lambda>c. case DescribeReplicationGroups c of Inl err \<Rightarrow> [] | Inr repGroups \<Rightarrow> ElastiCacheChecks_CheckBackupRetention_lowRetention c repGroups),
      shown = (\<lambda>e items. items),
      noun = ''Redis replication groups''\<rparr>]"
section \<open>SageMaker checks\<close>

record NotebookInstanceSummary =
  NotebookInstanceName :: "string option"

record DescribeNotebookInstanceOutput =
  KmsKeyId :: "string option"
  DirectInternetAccess :: string
  RootAccess :: string

record EndpointSummary =
  EndpointName :: "string option"

record DescribeEndpointOutput =
  EndpointConfigName :: "string option"

record DescribeEndpointConfigOutput =
  KmsKeyId :: "string option"

record TrainingJobSummary =
  TrainingJobName :: "string option"

record ResourceConfig =
  VolumeKmsKeyId :: "string option"

record DescribeTrainingJobOutput =
  ResourceConfig :: "ResourceConfig option"

record ModelSummary =
  ModelName :: "string option"

record DescribeModelOutput =
  EnableNetworkIsolation :: "bool option"

record SageMakerClient =
  ListNotebookInstances :: "error + NotebookInstanceSummary list"
  DescribeNotebookInstance :: "string option \<Rightarrow> error + DescribeNotebookInstanceOutput"
  ListEndpoints :: "error + EndpointSummary list"
  DescribeEndpoint :: "string option \<Rightarrow> error + DescribeEndpointOutput"
  DescribeEndpointConfig :: "string option \<Rightarrow> error + DescribeEndpointConfigOutput"
  ListTrainingJobs :: "error + TrainingJobSummary list"
  DescribeTrainingJob :: "string option \<Rightarrow> error + DescribeTrainingJobOutput"
  ListModels :: "error + ModelSummary list"
  DescribeModel :: "string option \<Rightarrow> error + DescribeModelOutput"

definition SageMakerChecks_CheckNotebookEncryption_unencrypted :: "SageMakerClient \<Rightarrow> NotebookInstanceSummary list \<Rightarrow> string list" where
  "SageMakerChecks_CheckNotebookEncryption_unencrypted c notebooks =
     fold (\<lambda>nb unencrypted.
             case DescribeNotebookInstance c (NotebookInstanceName nb) of
               Inl err \<Rightarrow> unencrypted
             | Inr detail \<Rightarrow>
                 if (case DescribeNotebookInstanceOutput.KmsKeyId detail of None \<Rightarrow> True | Some k \<Rightarrow> k = '''')
                 then unencrypted @ [ToString (NotebookInstanceName nb)]
                 else unencrypted)
       notebooks []"

definition SageMakerChecks_CheckNotebookEncryption :: "SageMakerClient \<Rightarrow> env \<Rightarrow> error + CheckResult" where
  "SageMakerChecks_CheckNotebookEncryption c e =
     (case ListNotebookInstances c of
        Inl err \<Rightarrow> Inl err
      | Inr notebooks \<Rightarrow>
          (let unencrypted = SageMakerChecks_CheckNotebookEncryption_unencrypted c notebooks in
           if length unencrypted > 0 then
             Inr \<lparr>Control = ''CC6.3'',
                  Name = ''SageMaker Notebook Encryption'',
                  Status = ''FAIL'',
                  Severity = ''HIGH'',
                  Evidence = fmt_d (length unencrypted) @ '' notebooks without KMS encryption: '' @ fmt_v unencrypted,
                  Remediation = ''Enable KMS encryption for SageMaker notebooks'',
                  RemediationDetail = ''Create new notebook instance with KMS key or recreate existing notebooks with encryption enabled'',
                  ScreenshotGuide = ''SageMaker Console '' @ arrow @ '' Notebook instances '' @ arrow @ '' Select instance '' @ arrow @ '' Configuration '' @ arrow @ '' Screenshot showing KMS Key ARN'',
                  ConsoleURL = ''https://console.aws.amazon.com/sagemaker/home#/notebook-instances'',
                  Priority = PriorityHigh,
                  Timestamp = Now e,
                  Frameworks = GetFrameworkMappings e ''SAGEMAKER_ENCRYPTION''\<rparr>
           else if length notebooks = 0 then
             Inr \<lparr>Control = ''CC6.3'',
                  Name = ''SageMaker Notebook Encryption'',
                  Status = ''PASS'',
                  Severity = '''',
                  Evidence = ''No SageMaker notebooks found'',
                  Remediation = '''',
                  RemediationDetail = '''',
                  ScreenshotGuide = '''',
                  ConsoleURL = '''',
                  Priority = PriorityInfo,
                  Timestamp = Now e,
                  Frameworks = GetFrameworkMappings e ''SAGEMAKER_ENCRYPTION''\<rparr>
           else
             Inr \<lparr>Control = ''CC6.3'',
                  Name = ''SageMaker Notebook Encryption'',
                  Status = ''PASS'',
                  Severity = '''',
                  Evidence = ''All '' @ fmt_d (length notebooks) @ '' notebooks are encrypted with KMS'',
                  Remediation = '''',
                  RemediationDetail = '''',
                  ScreenshotGuide = '''',
                  ConsoleURL = '''',
                  Priority = PriorityInfo,
                  Timestamp = Now e,
                  Frameworks = GetFrameworkMappings e ''SAGEMAKER_ENCRYPTION''\<rparr>))"

definition SageMakerChecks_CheckNotebookDirectInternet_directInternet :: "SageMakerClient \<Rightarrow> NotebookInstanceSummary list \<Rightarrow> string list" where
  "SageMakerChecks_CheckNotebookDirectInternet_directInternet c notebooks =
     fold (\<lambda>nb directInternet.
             case DescribeNotebookInstance c (NotebookInstanceName nb) of
               Inl err \<Rightarrow> directInternet
             | Inr detail \<Rightarrow>
                 if DirectInternetAccess detail = ''Enabled''
                 then directInternet @ [ToString (NotebookInstanceName nb)]
                 else directInternet)
       notebooks []"

definition SageMakerChecks_CheckNotebookDirectInternet :: "SageMakerClient \<Rightarrow> env \<Rightarrow> error + CheckResult" where
  "SageMakerChecks_CheckNotebookDirectInternet c e =
     (case ListNotebookInstances c of
        Inl err \<Rightarrow> Inl err
      | Inr notebooks \<Rightarrow>
          (let directInternet = SageMakerChecks_CheckNotebookDirectInternet_directInternet c notebooks in
           if length directInternet > 0 then
             Inr \<lparr>Control = ''CC6.1'',
                  Name = ''SageMaker Direct Internet Access'',
                  Status = ''FAIL'',
                  Severity = ''MEDIUM'',
                  Evidence = fmt_d (length directInternet) @ '' notebooks have direct internet access enabled: '' @ fmt_v directInternet,
                  Remediation = ''Disable direct internet access and use VPC for network isolation'',
                  RemediationDetail = ''Recreate notebook instance in VPC with DirectInternetAccess=Disabled, use NAT gateway for outbound access'',
                  ScreenshotGuide = ''SageMaker Console '' @ arrow @ '' Notebook '' @ arrow @ '' Network '' @ arrow @ '' Screenshot showing 'Direct internet access: Disabled'' @ [CHR 0x27],
                  ConsoleURL = ''https://console.aws.amazon.com/sagemaker/home#/notebook-instances'',
                  Priority = PriorityMedium,
                  Timestamp = Now e,
                  Frameworks = GetFrameworkMappings e ''SAGEMAKER_NETWORK''\<rparr>
           else if length notebooks = 0 then
             Inr \<lparr>Control = ''CC6.1'',
                  Name = ''SageMaker Direct Internet Access'',
                  Status = ''PASS'',
                  Severity = '''',
                  Evidence = ''No SageMaker notebooks found'',
                  Remediation = '''',
                  RemediationDetail = '''',
                  ScreenshotGuide = '''',
                  ConsoleURL = '''',
                  Priority = PriorityInfo,
                  Timestamp = Now e,
                  Frameworks = GetFrameworkMappings e ''SAGEMAKER_NETWORK''\<rparr>
           else
             Inr \<lparr>Control = ''CC6.1'',
                  Name = ''SageMaker Direct Internet Access'',
                  Status = ''PASS'',
                  Severity = '''',
                  Evidence = ''All '' @ fmt_d (length notebooks) @ '' notebooks have direct internet access disabled'',
                  Remediation = '''',
                  RemediationDetail = '''',
                  ScreenshotGuide = '''',
                  ConsoleURL = '''',
                  Priority = PriorityInfo,
                  Timestamp = Now e,
                  Frameworks = GetFrameworkMappings e ''SAGEMAKER_NETWORK''\<rparr>))"

definition SageMakerChecks_CheckNotebookRootAccess_rootEnabled :: "SageMakerClient \<Rightarrow> NotebookInstanceSummary list \<Rightarrow> string list" where
  "SageMakerChecks_CheckNotebookRootAccess_rootEnabled c notebooks =
     fold (\<lambda>nb rootEnabled.
             case DescribeNotebookInstance c (NotebookInstanceName nb) of
               Inl err \<Rightarrow> rootEnabled
             | Inr detail \<Rightarrow>
                 if RootAccess detail = ''Enabled''
                 then rootEnabled @ [ToString (NotebookInstanceName nb)]
                 else rootEnabled)
       notebooks []"

definition SageMakerChecks_CheckNotebookRootAccess :: "SageMakerClient \<Rightarrow> env \<Rightarrow> error + CheckResult" where
  "SageMakerChecks_CheckNotebookRootAccess c e =
     (case ListNotebookInstances c of
        Inl err \<Rightarrow> Inl err
      | Inr notebooks \<Rightarrow>
          (let rootEnabled = SageMakerChecks_CheckNotebookRootAccess_rootEnabled c notebooks in
           if length rootEnabled > 0 then
             Inr \<lparr>Control = ''CC6.6'',
                  Name = ''SageMaker Root Access'',
                  Status = ''FAIL'',
                  Severity = ''MEDIUM'',
                  Evidence = fmt_d (length rootEnabled) @ '' notebooks have root access enabled: '' @ fmt_v rootEnabled,
                  Remediation = ''Disable root access for notebook instances'',
                  RemediationDetail = ''Update notebook instance to disable root access: aws sagemaker update-notebook-instance --notebook-instance-name NAME --root-access Disabled'',
                  ScreenshotGuide = ''SageMaker Console '' @ arrow @ '' Notebook '' @ arrow @ '' Permissions '' @ arrow @ '' Screenshot showing 'Root access: Disabled'' @ [CHR 0x27],
                  ConsoleURL = ''https://console.aws.amazon.com/sagemaker/home#/notebook-instances'',
                  Priority = PriorityMedium,
                  Timestamp = Now e,
                  Frameworks = GetFrameworkMappings e ''SAGEMAKER_ACCESS''\<rparr>
           else if length notebooks = 0 then
             Inr \<lparr>Control = ''CC6.6'',
                  Name = ''SageMaker Root Access'',
                  Status = ''PASS'',
                  Severity = '''',
                  Evidence = ''No SageMaker notebooks found'',
                  Remediation = '''',
                  RemediationDetail = '''',
                  ScreenshotGuide = '''',
                  ConsoleURL = '''',
                  Priority = PriorityInfo,
                  Timestamp = Now e,
                  Frameworks = GetFrameworkMappings e ''SAGEMAKER_ACCESS''\<rparr>
           else
             Inr \<lparr>Control = ''CC6.6'',
                  Name = ''SageMaker Root Access'',
                  Status = ''PASS'',
                  Severity = '''',
                  Evidence = ''All '' @ fmt_d (length notebooks) @ '' notebooks have root access disabled'',
                  Remediation = '''',
                  RemediationDetail = '''',
                  ScreenshotGuide = '''',
                  ConsoleURL = '''',
                  Priority = PriorityInfo,
                  Timestamp = Now e,
                  Frameworks = GetFrameworkMappings e ''SAGEMAKER_ACCESS''\<rparr>))"

definition SageMakerChecks_CheckEndpointEncryption_unencrypted :: "SageMakerClient \<Rightarrow> EndpointSummary list \<Rightarrow> string list" where
  "SageMakerChecks_CheckEndpointEncryption_unencrypted c endpoints =
     fold (\<lambda>ep unencrypted.
             case DescribeEndpoint c (EndpointName ep) of
               Inl err \<Rightarrow> unencrypted
             | Inr detail \<Rightarrow>
                 (case DescribeEndpointConfig c (EndpointConfigName detail) of
                    Inl err \<Rightarrow> unencrypted
                  | Inr configDetail \<Rightarrow>
                      if (case DescribeEndpointConfigOutput.KmsKeyId configDetail of None \<Rightarrow> True | Some k \<Rightarrow> k = '''')
                      then unencrypted @ [ToString (EndpointName ep)]
                      else unencrypted))
       endpoints []"

definition SageMakerChecks_CheckEndpointEncryption :: "SageMakerClient \<Rightarrow> env \<Rightarrow> error + CheckResult" where
  "SageMakerChecks_CheckEndpointEncryption c e =
     (case ListEndpoints c of
        Inl err \<Rightarrow> Inl err
      | Inr endpoints \<Rightarrow>
          (let unencrypted = SageMakerChecks_CheckEndpointEncryption_unencrypted c endpoints in
           if length unencrypted > 0 then
             Inr \<lparr>Control = ''CC6.3'',
                  Name = ''SageMaker Endpoint Encryption'',
                  Status = ''FAIL'',
                  Severity = ''HIGH'',
                  Evidence = fmt_d (length unencrypted) @ '' endpoints without KMS encryption: '' @ fmt_v unencrypted,
                  Remediation = ''Enable KMS encryption for SageMaker endpoints'',
                  RemediationDetail = ''Create new endpoint config with KmsKeyId specified, then update endpoint to use new config'',
                  ScreenshotGuide = ''SageMaker Console '' @ arrow @ '' Endpoints '' @ arrow @ '' Select endpoint '' @ arrow @ '' Configuration '' @ arrow @ '' Screenshot showing KMS Key ARN'',
                  ConsoleURL = ''https://console.aws.amazon.com/sagemaker/home#/endpoints'',
                  Priority = PriorityHigh,
                  Timestamp = Now e,
                  Frameworks = GetFrameworkMappings e ''SAGEMAKER_ENCRYPTION''\<rparr>
           else if length endpoints = 0 then
             Inr \<lparr>Control = ''CC6.3'',
                  Name = ''SageMaker Endpoint Encryption'',
                  Status = ''PASS'',
                  Severity = '''',
                  Evidence = ''No SageMaker endpoints found'',
                  Remediation = '''',
                  RemediationDetail = '''',
                  ScreenshotGuide = '''',
                  ConsoleURL = '''',
                  Priority = PriorityInfo,
                  Timestamp = Now e,
                  Frameworks = GetFrameworkMappings e ''SAGEMAKER_ENCRYPTION''\<rparr>
           else
             Inr \<lparr>Control = ''CC6.3'',
                  Name = ''SageMaker Endpoint Encryption'',
                  Status = ''PASS'',
                  Severity = '''',
                  Evidence = ''All '' @ fmt_d (length endpoints) @ '' endpoints are encrypted with KMS'',
                  Remediation = '''',
                  RemediationDetail = '''',
                  ScreenshotGuide = '''',
                  ConsoleURL = '''',
                  Priority = PriorityInfo,
                  Timestamp = Now e,
                  Frameworks = GetFrameworkMappings e ''SAGEMAKER_ENCRYPTION''\<rparr>))"

definition SageMakerChecks_CheckTrainingJobEncryption_unencrypted :: "SageMakerClient \<Rightarrow> TrainingJobSummary list \<Rightarrow> string list" where
  "SageMakerChecks_CheckTrainingJobEncryption_unencrypted c jobs =
     fold (\<lambda>job unencrypted.
             case DescribeTrainingJob c (TrainingJobName job) of
               Inl err \<Rightarrow> unencrypted
             | Inr detail \<Rightarrow>
                 if (case ResourceConfig detail of
                       None \<Rightarrow> False
                     | Some rc \<Rightarrow> (case VolumeKmsKeyId rc of None \<Rightarrow> True | Some k \<Rightarrow> k = ''''))
                 then unencrypted @ [ToString (TrainingJobName job)]
                 else unencrypted)
       jobs []"

definition SageMakerChecks_CheckTrainingJobEncryption :: "SageMakerClient \<Rightarrow> env \<Rightarrow> error + CheckResult" where
  "SageMakerChecks_CheckTrainingJobEncryption c e =
     (case ListTrainingJobs c of
        Inl err \<Rightarrow> Inl err
      | Inr jobs \<Rightarrow>
          (let unencrypted = SageMakerChecks_CheckTrainingJobEncryption_unencrypted c jobs in
           if length unencrypted > 0 then
             Inr \<lparr>Control = ''CC6.3'',
                  Name = ''SageMaker Training Job Encryption'',
                  Status = ''FAIL'',
                  Severity = ''MEDIUM'',
                  Evidence = fmt_d (length unencrypted) @ '' training jobs without volume encryption: '' @ fmt_v (truncateList e unencrypted 5),
                  Remediation = ''Enable KMS encryption for training job volumes'',
                  RemediationDetail = ''When creating training jobs, specify VolumeKmsKeyId in ResourceConfig'',
                  ScreenshotGuide = ''SageMaker Console '' @ arrow @ '' Training jobs '' @ arrow @ '' Select job '' @ arrow @ '' Configuration '' @ arrow @ '' Screenshot showing encryption settings'',
                  ConsoleURL = ''https://console.aws.amazon.com/sagemaker/home#/jobs'',
                  Priority = PriorityMedium,
                  Timestamp = Now e,
                  Frameworks = GetFrameworkMappings e ''SAGEMAKER_ENCRYPTION''\<rparr>
           else if length jobs = 0 then
             Inr \<lparr>Control = ''CC6.3'',
                  Name = ''SageMaker Training Job Encryption'',
                  Status = ''PASS'',
                  Severity = '''',
                  Evidence = ''No SageMaker training jobs found'',
                  Remediation = '''',
                  RemediationDetail = '''',
                  ScreenshotGuide = '''',
                  ConsoleURL = '''',
                  Priority = PriorityInfo,
                  Timestamp = Now e,
                  Frameworks = GetFrameworkMappings e ''SAGEMAKER_ENCRYPTION''\<rparr>
           else
             Inr \<lparr>Control = ''CC6.3'',
                  Name = ''SageMaker Training Job Encryption'',
                  Status = ''PASS'',
                  Severity = '''',
                  Evidence = ''All '' @ fmt_d (length jobs) @ '' recent training jobs have volume encryption enabled'',
                  Remediation = '''',
                  RemediationDetail = '''',
                  ScreenshotGuide = '''',
                  ConsoleURL = '''',
                  Priority = PriorityInfo,
                  Timestamp = Now e,
                  Frameworks = GetFrameworkMappings e ''SAGEMAKER_ENCRYPTION''\<rparr>))"

definition SageMakerChecks_CheckModelNetworkIsolation_notIsolated :: "SageMakerClient \<Rightarrow> ModelSummary list \<Rightarrow> string list" where
  "SageMakerChecks_CheckModelNetworkIsolation_notIsolated c models =
     fold (\<lambda>model notIsolated.
             case DescribeModel c (ModelName model) of
               Inl err \<Rightarrow> notIsolated
             | Inr detail \<Rightarrow>
                 if (case EnableNetworkIsolation detail of None \<Rightarrow> True | Some b \<Rightarrow> \<not> b)
                 then notIsolated @ [ToString (ModelName model)]
                 else notIsolated)
       models []"

definition SageMakerChecks_CheckModelNetworkIsolation :: "SageMakerClient \<Rightarrow> env \<Rightarrow> error + CheckResult" where
  "SageMakerChecks_CheckModelNetworkIsolation c e =
     (case ListModels c of
        Inl err \<Rightarrow> Inl err
      | Inr models \<Rightarrow>
          (let notIsolated = SageMakerChecks_CheckModelNetworkIsolation_notIsolated c models in
           if length notIsolated > 0 then
             Inr \<lparr>Control = ''CC6.1'',
                  Name = ''SageMaker Model Network Isolation'',
                  Status = ''FAIL'',
                  Severity = ''LOW'',
                  Evidence = fmt_d (length notIsolated) @ '' models without network isolation: '' @ fmt_v (truncateList e notIsolated 5),
                  Remediation = ''Enable network isolation for SageMaker models'',
                  RemediationDetail = ''When creating models, set EnableNetworkIsolation=true to prevent network access during inference'',
                  ScreenshotGuide = ''SageMaker Console '' @ arrow @ '' Models '' @ arrow @ '' Select model '' @ arrow @ '' Network '' @ arrow @ '' Screenshot showing isolation settings'',
                  ConsoleURL = ''https://console.aws.amazon.com/sagemaker/home#/models'',
                  Priority = PriorityLow,
                  Timestamp = Now e,
                  Frameworks = GetFrameworkMappings e ''SAGEMAKER_NETWORK''\<rparr>
           else if length models = 0 then
             Inr \<lparr>Control = ''CC6.1'',
                  Name = ''SageMaker Model Network Isolation'',
                  Status = ''PASS'',
                  Severity = '''',
                  Evidence = ''No SageMaker models found'',
                  Remediation = '''',
                  RemediationDetail = '''',
                  ScreenshotGuide = '''',
                  ConsoleURL = '''',
                  Priority = PriorityInfo,
                  Timestamp = Now e,
                  Frameworks = GetFrameworkMappings e ''SAGEMAKER_NETWORK''\<rparr>
           else
             Inr \<lparr>Control = ''CC6.1'',
                  Name = ''SageMaker Model Network Isolation'',
                  Status = ''PASS'',
                  Severity = '''',
                  Evidence = ''All '' @ fmt_d (length models) @ '' models have network isolation enabled'',
                  Remediation = '''',
                  RemediationDetail = '''',
                  ScreenshotGuide = '''',
                  ConsoleURL = '''',
                  Priority = PriorityInfo,
                  Timestamp = Now e,
                  Frameworks = GetFrameworkMappings e ''SAGEMAKER_NETWORK''\<rparr>))"
definition SageMakerChecks_Run :: "SageMakerClient \<Rightarrow> env \<Rightarrow> CheckResult list \<times> error option" where
  "SageMakerChecks_Run c e =
     (let results = [];
          results = (case SageMakerChecks_CheckNotebookEncryption c e of Inr result \<Rightarrow> results @ [result] | Inl err \<Rightarrow> results);
          results = (case SageMakerChecks_CheckNotebookDirectInternet c e of Inr result \<Rightarrow> results @ [result] | Inl err \<Rightarrow> results);
          results = (case SageMakerChecks_CheckNotebookRootAccess c e of Inr result \<Rightarrow> results @ [result] | Inl err \<Rightarrow> results);
          results = (case SageMakerChecks_CheckEndpointEncryption c e of Inr result \<Rightarrow> results @ [result] | Inl err \<Rightarrow> results);
          results = (case SageMakerChecks_CheckTrainingJobEncryption c e of Inr result \<Rightarrow> results @ [result] | Inl err \<Rightarrow> results);
          results = (case SageMakerChecks_CheckModelNetworkIsolation c e of Inr result \<Rightarrow> results @ [result] | Inl err \<Rightarrow> results)
      in (results, None))"

definition SageMakerChecks_leaves :: "SageMakerClient leaf list" where
  "SageMakerChecks_leaves =
    [\<lparr>check = SageMakerChecks_CheckNotebookEncryption,
      listing = (\<lambda>c. map_sum id length (ListNotebookInstances c)),
      offenders = (\<lambda>c. case ListNotebookInstances c of Inl err \<Rightarrow> [] | Inr notebooks \<Rightarrow> SageMakerChecks_CheckNotebookEncryption_unencrypted c notebooks),
      shown = (\<lambda>e items. items),
      noun = ''SageMaker notebooks''\<rparr>,
     \<lparr>check = SageMakerChecks_CheckNotebookDirectInternet,
      listing = (\<lambda>c. map_sum id length (ListNotebookInstances c)),
      offenders = (\<lambda>c. case ListNotebookInstances c of Inl err \<Rightarrow> [] | Inr notebooks \<Rightarrow> SageMakerChecks_CheckNotebookDirectInternet_directInternet c notebooks),
      shown = (\<lambda>e items. items),
      noun = ''SageMaker notebooks''\<rparr>,
     \<lparr>check = SageMakerChecks_CheckNotebookRootAccess,
      listing = (\<lambda>c. map_sum id length (ListNotebookInstances c)),
      offenders = (\<lambda>c. case ListNotebookInstances c of Inl err \<Rightarrow> [] | Inr notebooks \<Rightarrow> SageMakerChecks_CheckNotebookRootAccess_rootEnabled c notebooks),
      shown = (\<lambda>e items. items),
      noun = ''SageMaker notebooks''\<rparr>,
     \<lparr>check = SageMakerChecks_CheckEndpointEncryption,
      listing = (\<lambda>c. map_sum id length (ListEndpoints c)),
      offenders = (\<lambda>c. case ListEndpoints c of Inl err \<Rightarrow> [] | Inr endpoints \<Rightarrow> SageMakerChecks_CheckEndpointEncryption_unencrypted c endpoints),
      shown = (\<lambda>e items. items),
      noun = ''SageMaker endpoints''\<rparr>,
     \<lparr>check = SageMakerChecks_CheckTrainingJobEncryption,
      listing = (\<lambda>c. map_sum id length (ListTrainingJobs c)),
      offenders = (\<lambda>c. case ListTrainingJobs c of Inl err \<Rightarrow> [] | Inr jobs \<Rightarrow> SageMakerChecks_CheckTrainingJobEncryption_unencrypted c jobs),
      shown = (\<lambda>e items. truncateList e items 5),
      noun = ''SageMaker training jobs''\<rparr>,
     \<lparr>check = SageMakerChecks_CheckModelNetworkIsolation,
      listing = (\<lambda>c. map_sum id length (ListModels c)),
      offenders = (\<lambda>c. case ListModels c of Inl err \<Rightarrow> [] | Inr models \<Rightarrow> SageMakerChecks_CheckModelNetworkIsolation_notIsolated c models),
      shown = (\<lambda>e items. truncateList e items 5),
      noun = ''SageMaker models''\<rparr>]"
section \<open>Redshift checks\<close>

text \<open>
  \<open>ClusterParameterGroups\<close> is a slice, nil being the empty list: the source ranges over
  it when it is not nil. \<open>DescribeClusterParameters\<close> is called with the address of a local
  string, so its argument is a string.
\<close>

record ClusterParameterGroupStatus =
  ParameterGroupName :: "string option"

record Cluster =
  ClusterIdentifier :: "string option"
  Encrypted :: "bool option"
  PubliclyAccessible :: "bool option"
  ClusterParameterGroups :: "ClusterParameterGroupStatus list"
  AllowVersionUpgrade :: "bool option"
  AutomatedSnapshotRetentionPeriod :: "int option"
  EnhancedVpcRouting :: "bool option"

record DescribeLoggingStatusOutput =
  LoggingEnabled :: "bool option"

record Parameter =
  ParameterName :: "string option"
  ParameterValue :: "string option"

record RedshiftClient =
  DescribeClusters :: "error + Cluster list"
  DescribeLoggingStatus :: "string option \<Rightarrow> error + DescribeLoggingStatusOutput"
  DescribeClusterParameters :: "string \<Rightarrow> error + Parameter list"

definition RedshiftChecks_CheckClusterEncryption_unencrypted :: "RedshiftClient \<Rightarrow> Cluster list \<Rightarrow> string list" where
  "RedshiftChecks_CheckClusterEncryption_unencrypted c clusters =
     fold (\<lambda>cluster unencrypted.
             if \<not> ToBool (Encrypted cluster)
             then unencrypted @ [ToString (ClusterIdentifier cluster)]
             else unencrypted)
       clusters []"

definition RedshiftChecks_CheckClusterEncryption :: "RedshiftClient \<Rightarrow> env \<Rightarrow> error + CheckResult" where
  "RedshiftChecks_CheckClusterEncryption c e =
     (case DescribeClusters c of
        Inl err \<Rightarrow> Inl err
      | Inr clusters \<Rightarrow>
          (let unencrypted = RedshiftChecks_CheckClusterEncryption_unencrypted c clusters in
           if length unencrypted > 0 then
             Inr \<lparr>Control = ''CC6.3'',
                  Name = ''Redshift Cluster Encryption'',
                  Status = ''FAIL'',
                  Severity = ''CRITICAL'',
                  Evidence = fmt_d (length unencrypted) @ '' Redshift clusters NOT encrypted: '' @ fmt_v unencrypted,
                  Remediation = ''Enable encryption for Redshift clusters'',
                  RemediationDetail = ''1. Create snapshot of unencrypted cluster\<newline>2. Restore snapshot with encryption enabled\<newline>3. Update applications to use new endpoint\<newline>4. Delete unencrypted cluster'',
                  ScreenshotGuide = ''Redshift Console '' @ arrow @ '' Clusters '' @ arrow @ '' Select cluster '' @ arrow @ '' Properties '' @ arrow @ '' Screenshot showing 'Encrypted: Yes'' @ [CHR 0x27],
                  ConsoleURL = ''https://console.aws.amazon.com/redshiftv2/home#clusters'',
                  Priority = PriorityCritical,
                  Timestamp = Now e,
                  Frameworks = GetFrameworkMappings e ''REDSHIFT_ENCRYPTION''\<rparr>
           else if length clusters = 0 then
             Inr \<lparr>Control = ''CC6.3'',
                  Name = ''Redshift Cluster Encryption'',
                  Status = ''PASS'',
                  Severity = '''',
                  Evidence = ''No Redshift clusters found'',
                  Remediation = '''',
                  RemediationDetail = '''',
                  ScreenshotGuide = '''',
                  ConsoleURL = '''',
                  Priority = PriorityInfo,
                  Timestamp = Now e,
                  Frameworks = GetFrameworkMappings e ''REDSHIFT_ENCRYPTION''\<rparr>
           else
             Inr \<lparr>Control = ''CC6.3'',
                  Name = ''Redshift Cluster Encryption'',
                  Status = ''PASS'',
                  Severity = '''',
                  Evidence = ''All '' @ fmt_d (length clusters) @ '' Redshift clusters are encrypted'',
                  Remediation = '''',
                  RemediationDetail = '''',
                  ScreenshotGuide = '''',
                  ConsoleURL = '''',
                  Priority = PriorityInfo,
                  Timestamp = Now e,
                  Frameworks = GetFrameworkMappings e ''REDSHIFT_ENCRYPTION''\<rparr>))"

definition RedshiftChecks_CheckClusterPublicAccess_publicClusters :: "RedshiftClient \<Rightarrow> Cluster list \<Rightarrow> string list" where
  "RedshiftChecks_CheckClusterPublicAccess_publicClusters c clusters =
     fold (\<lambda>cluster publicClusters.
             if ToBool (PubliclyAccessible cluster)
             then publicClusters @ [ToString (ClusterIdentifier cluster)]
             else publicClusters)
       clusters []"

definition RedshiftChecks_CheckClusterPublicAccess :: "RedshiftClient \<Rightarrow> env \<Rightarrow> error + CheckResult" where
  "RedshiftChecks_CheckClusterPublicAccess c e =
     (case DescribeClusters c of
        Inl err \<Rightarrow> Inl err
      | Inr clusters \<Rightarrow>
          (let publicClusters = RedshiftChecks_CheckClusterPublicAccess_publicClusters c clusters in
           if length publicClusters > 0 then
             Inr \<lparr>Control = ''CC6.1'',
                  Name = ''Redshift Public Access'',
                  Status = ''FAIL'',
                  Severity = ''CRITICAL'',
                  Evidence = fmt_d (length publicClusters) @ '' Redshift clusters are publicly accessible: '' @ fmt_v publicClusters,
                  Remediation = ''Disable public accessibility for Redshift clusters'',
                  RemediationDetail = ''aws redshift modify-cluster --cluster-identifier [CLUSTER_ID] --no-publicly-accessible'',
                  ScreenshotGuide = ''Redshift Console '' @ arrow @ '' Clusters '' @ arrow @ '' Select cluster '' @ arrow @ '' Properties '' @ arrow @ '' Screenshot showing 'Publicly accessible: No'' @ [CHR 0x27],
                  ConsoleURL = ''https://console.aws.amazon.com/redshiftv2/home#clusters'',
                  Priority = PriorityCritical,
                  Timestamp = Now e,
                  Frameworks = GetFrameworkMappings e ''REDSHIFT_NETWORK''\<rparr>
           else if length clusters = 0 then
             Inr \<lparr>Control = ''CC6.1'',
                  Name = ''Redshift Public Access'',
                  Status = ''PASS'',
                  Severity = '''',
                  Evidence = ''No Redshift clusters found'',
                  Remediation = '''',
                  RemediationDetail = '''',
                  ScreenshotGuide = '''',
                  ConsoleURL = '''',
                  Priority = PriorityInfo,
                  Timestamp = Now e,
                  Frameworks = GetFrameworkMappings e ''REDSHIFT_NETWORK''\<rparr>
           else
             Inr \<lparr>Control = ''CC6.1'',
                  Name = ''Redshift Public Access'',
                  Status = ''PASS'',
                  Severity = '''',
                  Evidence = ''All '' @ fmt_d (length clusters) @ '' Redshift clusters are private (not publicly accessible)'',
                  Remediation = '''',
                  RemediationDetail = '''',
                  ScreenshotGuide = '''',
                  ConsoleURL = '''',
                  Priority = PriorityInfo,
                  Timestamp = Now e,
                  Frameworks = GetFrameworkMappings e ''REDSHIFT_NETWORK''\<rparr>))"

definition RedshiftChecks_CheckClusterLogging_noLogging :: "RedshiftClient \<Rightarrow> Cluster list \<Rightarrow> string list" where
  "RedshiftChecks_CheckClusterLogging_noLogging c clusters =
     fold (\<lambda>cluster noLogging.
             if (case DescribeLoggingStatus c (ClusterIdentifier cluster) of
                   Inl err \<Rightarrow> True
                 | Inr logging \<Rightarrow> \<not> ToBool (LoggingEnabled logging))
             then noLogging @ [ToString (ClusterIdentifier cluster)]
             else noLogging)
       clusters []"

definition RedshiftChecks_CheckClusterLogging :: "RedshiftClient \<Rightarrow> env \<Rightarrow> error + CheckResult" where
  "RedshiftChecks_CheckClusterLogging c e =
     (case DescribeClusters c of
        Inl err \<Rightarrow> Inl err
      | Inr clusters \<Rightarrow>
          (let noLogging = RedshiftChecks_CheckClusterLogging_noLogging c clusters in
           if length noLogging > 0 then
             Inr \<lparr>Control = ''CC7.1'',
                  Name = ''Redshift Audit Logging'',
                  Status = ''FAIL'',
                  Severity = ''HIGH'',
                  Evidence = fmt_d (length noLogging) @ '' Redshift clusters without audit logging: '' @ fmt_v noLogging,
                  Remediation = ''Enable audit logging for Redshift clusters'',
                  RemediationDetail = ''aws redshift enable-logging --cluster-identifier [CLUSTER_ID] --bucket-name [S3_BUCKET] --s3-key-prefix 'redshift-logs/'' @ [CHR 0x27],
                  ScreenshotGuide = ''Redshift Console '' @ arrow @ '' Clusters '' @ arrow @ '' Select cluster '' @ arrow @ '' Properties '' @ arrow @ '' Audit logging '' @ arrow @ '' Screenshot showing 'Enabled'' @ [CHR 0x27],
                  ConsoleURL = ''https://console.aws.amazon.com/redshiftv2/home#clusters'',
                  Priority = PriorityHigh,
                  Timestamp = Now e,
                  Frameworks = GetFrameworkMappings e ''REDSHIFT_LOGGING''\<rparr>
           else if length clusters = 0 then
             Inr \<lparr>Control = ''CC7.1'',
                  Name = ''Redshift Audit Logging'',
                  Status = ''PASS'',
                  Severity = '''',
                  Evidence = ''No Redshift clusters found'',
                  Remediation = '''',
                  RemediationDetail = '''',
                  ScreenshotGuide = '''',
                  ConsoleURL = '''',
                  Priority = PriorityInfo,
                  Timestamp = Now e,
                  Frameworks = GetFrameworkMappings e ''REDSHIFT_LOGGING''\<rparr>
           else
             Inr \<lparr>Control = ''CC7.1'',
                  Name = ''Redshift Audit Logging'',
                  Status = ''PASS'',
                  Severity = '''',
                  Evidence = ''All '' @ fmt_d (length clusters) @ '' Redshift clusters have audit logging enabled'',
                  Remediation = '''',
                  RemediationDetail = '''',
                  ScreenshotGuide = '''',
                  ConsoleURL = '''',
                  Priority = PriorityInfo,
                  Timestamp = Now e,
                  Frameworks = GetFrameworkMappings e ''REDSHIFT_LOGGING''\<rparr>))"

definition RedshiftChecks_CheckClusterSSL_noSSL :: "RedshiftClient \<Rightarrow> Cluster list \<Rightarrow> string list" where
  "RedshiftChecks_CheckClusterSSL_noSSL c clusters =
     fold (\<lambda>cluster noSSL.
             fold (\<lambda>pg noSSL.
                     case DescribeClusterParameters c (ToString (ParameterGroupName pg)) of
                       Inl err \<Rightarrow> noSSL
                     | Inr params \<Rightarrow>
                         (let sslRequired =
                                list_ex (\<lambda>param. ToString (ParameterName param) = ''require_ssl''
                                                 \<and> ToString (ParameterValue param) = ''true'') params
                          in if \<not> sslRequired
                             then noSSL @ [ToString (ClusterIdentifier cluster)]
                             else noSSL))
               (ClusterParameterGroups cluster) noSSL)
       clusters []"

definition RedshiftChecks_CheckClusterSSL :: "RedshiftClient \<Rightarrow> env \<Rightarrow> error + CheckResult" where
  "RedshiftChecks_CheckClusterSSL c e =
     (case DescribeClusters c of
        Inl err \<Rightarrow> Inl err
      | Inr clusters \<Rightarrow>
          (let noSSL = RedshiftChecks_CheckClusterSSL_noSSL c clusters in
           if length noSSL > 0 then
             Inr \<lparr>Control = ''CC6.4'',
                  Name = ''Redshift SSL Required'',
                  Status = ''FAIL'',
                  Severity = ''HIGH'',
                  Evidence = fmt_d (length noSSL) @ '' Redshift clusters do not require SSL: '' @ fmt_v noSSL,
                  Remediation = ''Enable require_ssl parameter for Redshift clusters'',
                  RemediationDetail = ''1. Create/modify parameter group with require_ssl=true\<newline>2. Associate parameter group with cluster\<newline>3. Reboot cluster to apply changes'',
                  ScreenshotGuide = ''Redshift Console '' @ arrow @ '' Parameter groups '' @ arrow @ '' Select group '' @ arrow @ '' Parameters '' @ arrow @ '' Screenshot showing 'require_ssl: true'' @ [CHR 0x27],
                  ConsoleURL = ''https://console.aws.amazon.com/redshiftv2/home#parameter-groups'',
                  Priority = PriorityHigh,
                  Timestamp = Now e,
                  Frameworks = GetFrameworkMappings e ''REDSHIFT_SSL''\<rparr>
           else if length clusters = 0 then
             Inr \<lparr>Control = ''CC6.4'',
                  Name = ''Redshift SSL Required'',
                  Status = ''PASS'',
                  Severity = '''',
                  Evidence = ''No Redshift clusters found'',
                  Remediation = '''',
                  RemediationDetail = '''',
                  ScreenshotGuide = '''',
                  ConsoleURL = '''',
                  Priority = PriorityInfo,
                  Timestamp = Now e,
                  Frameworks = GetFrameworkMappings e ''REDSHIFT_SSL''\<rparr>
           else
             Inr \<lparr>Control = ''CC6.4'',
                  Name = ''Redshift SSL Required'',
                  Status = ''PASS'',
                  Severity = '''',
                  Evidence = ''All '' @ fmt_d (length clusters) @ '' Redshift clusters require SSL connections'',
                  Remediation = '''',
                  RemediationDetail = '''',
                  ScreenshotGuide = '''',
                  ConsoleURL = '''',
                  Priority = PriorityInfo,
                  Timestamp = Now e,
                  Frameworks = GetFrameworkMappings e ''REDSHIFT_SSL''\<rparr>))"

definition RedshiftChecks_CheckClusterVersionUpgrade_noAutoUpgrade :: "RedshiftClient \<Rightarrow> Cluster list \<Rightarrow> string list" where
  "RedshiftChecks_CheckClusterVersionUpgrade_noAutoUpgrade c clusters =
     fold (\<lambda>cluster noAutoUpgrade.
             if \<not> ToBool (AllowVersionUpgrade cluster)
             then noAutoUpgrade @ [ToString (ClusterIdentifier cluster)]
             else noAutoUpgrade)
       clusters []"

definition RedshiftChecks_CheckClusterVersionUpgrade :: "RedshiftClient \<Rightarrow> env \<Rightarrow> error + CheckResult" where
  "RedshiftChecks_CheckClusterVersionUpgrade c e =
     (case DescribeClusters c of
        Inl err \<Rightarrow> Inl err
      | Inr clusters \<Rightarrow>
          (let noAutoUpgrade = RedshiftChecks_CheckClusterVersionUpgrade_noAutoUpgrade c clusters in
           if length noAutoUpgrade > 0 then
             Inr \<lparr>Control = ''CC7.5'',
                  Name = ''Redshift Auto Version Upgrade'',
                  Status = ''FAIL'',
                  Severity = ''MEDIUM'',
                  Evidence = fmt_d (length noAutoUpgrade) @ '' Redshift clusters have auto version upgrade disabled: '' @ fmt_v noAutoUpgrade,
                  Remediation = ''Enable automatic version upgrades for Redshift clusters'',
                  RemediationDetail = ''aws redshift modify-cluster --cluster-identifier [CLUSTER_ID] --allow-version-upgrade'',
                  ScreenshotGuide = ''Redshift Console '' @ arrow @ '' Clusters '' @ arrow @ '' Select cluster '' @ arrow @ '' Maintenance '' @ arrow @ '' Screenshot showing 'Allow version upgrade: Yes'' @ [CHR 0x27],
                  ConsoleURL = ''https://console.aws.amazon.com/redshiftv2/home#clusters'',
                  Priority = PriorityMedium,
                  Timestamp = Now e,
                  Frameworks = GetFrameworkMappings e ''REDSHIFT_PATCHING''\<rparr>
           else if length clusters = 0 then
             Inr \<lparr>Control = ''CC7.5'',
                  Name = ''Redshift Auto Version Upgrade'',
                  Status = ''PASS'',
                  Severity = '''',
                  Evidence = ''No Redshift clusters found'',
                  Remediation = '''',
                  RemediationDetail = '''',
                  ScreenshotGuide = '''',
                  ConsoleURL = '''',
                  Priority = PriorityInfo,
                  Timestamp = Now e,
                  Frameworks = GetFrameworkMappings e ''REDSHIFT_PATCHING''\<rparr>
           else
             Inr \<lparr>Control = ''CC7.5'',
                  Name = ''Redshift Auto Version Upgrade'',
                  Status = ''PASS'',
                  Severity = '''',
                  Evidence = ''All '' @ fmt_d (length clusters) @ '' Redshift clusters have auto version upgrade enabled'',
                  Remediation = '''',
                  RemediationDetail = '''',
                  ScreenshotGuide = '''',
                  ConsoleURL = '''',
                  Priority = PriorityInfo,
                  Timestamp = Now e,
                  Frameworks = GetFrameworkMappings e ''REDSHIFT_PATCHING''\<rparr>))"

definition RedshiftChecks_CheckClusterBackupRetention_lowRetention :: "RedshiftClient \<Rightarrow> Cluster list \<Rightarrow> string list" where
  "RedshiftChecks_CheckClusterBackupRetention_lowRetention c clusters =
     fold (\<lambda>cluster lowRetention.
             case AutomatedSnapshotRetentionPeriod cluster of
               None \<Rightarrow> lowRetention
             | Some period \<Rightarrow>
                 if period < 7
                 then lowRetention @ [ToString (ClusterIdentifier cluster) @ '' ('' @ fmt_d_int period @ '' days)'']
                 else lowRetention)
       clusters []"

definition RedshiftChecks_CheckClusterBackupRetention :: "RedshiftClient \<Rightarrow> env \<Rightarrow> error + CheckResult" where
  "RedshiftChecks_CheckClusterBackupRetention c e =
     (case DescribeClusters c of
        Inl err \<Rightarrow> Inl err
      | Inr clusters \<Rightarrow>
          (let lowRetention = RedshiftChecks_CheckClusterBackupRetention_lowRetention c clusters in
           if length lowRetention > 0 then
             Inr \<lparr>Control = ''A1.2'',
                  Name = ''Redshift Backup Retention'',
                  Status = ''FAIL'',
                  Severity = ''MEDIUM'',
                  Evidence = fmt_d (length lowRetention) @ '' Redshift clusters with backup retention < 7 days: '' @ fmt_v lowRetention,
                  Remediation = ''Increase automated snapshot retention period to at least 7 days'',
                  RemediationDetail = ''aws redshift modify-cluster --cluster-identifier [CLUSTER_ID] --automated-snapshot-retention-period 7'',
                  ScreenshotGuide = ''Redshift Console '' @ arrow @ '' Clusters '' @ arrow @ '' Select cluster '' @ arrow @ '' Backup '' @ arrow @ '' Screenshot showing retention period >= 7 days'',
                  ConsoleURL = ''https://console.aws.amazon.com/redshiftv2/home#clusters'',
                  Priority = PriorityMedium,
                  Timestamp = Now e,
                  Frameworks = GetFrameworkMappings e ''REDSHIFT_BACKUP''\<rparr>
           else if length clusters = 0 then
             Inr \<lparr>Control = ''A1.2'',
                  Name = ''Redshift Backup Retention'',
                  Status = ''PASS'',
                  Severity = '''',
                  Evidence = ''No Redshift clusters found'',
                  Remediation = '''',
                  RemediationDetail = '''',
                  ScreenshotGuide = '''',
                  ConsoleURL = '''',
                  Priority = PriorityInfo,
                  Timestamp = Now e,
                  Frameworks = GetFrameworkMappings e ''REDSHIFT_BACKUP''\<rparr>
           else
             Inr \<lparr>Control = ''A1.2'',
                  Name = ''Redshift Backup Retention'',
                  Status = ''PASS'',
                  Severity = '''',
                  Evidence = ''All '' @ fmt_d (length clusters) @ '' Redshift clusters have adequate backup retention (>= 7 days)'',
                  Remediation = '''',
                  RemediationDetail = '''',
                  ScreenshotGuide = '''',
                  ConsoleURL = '''',
                  Priority = PriorityInfo,
                  Timestamp = Now e,
                  Frameworks = GetFrameworkMappings e ''REDSHIFT_BACKUP''\<rparr>))"

definition RedshiftChecks_CheckClusterEnhancedVPCRouting_noEnhancedRouting :: "RedshiftClient \<Rightarrow> Cluster list \<Rightarrow> string list" where
  "RedshiftChecks_CheckClusterEnhancedVPCRouting_noEnhancedRouting c clusters =
     fold (\<lambda>cluster noEnhancedRouting.
             if \<not> ToBool (EnhancedVpcRouting cluster)
             then noEnhancedRouting @ [ToString (ClusterIdentifier cluster)]
             else noEnhancedRouting)
       clusters []"

definition RedshiftChecks_CheckClusterEnhancedVPCRouting :: "RedshiftClient \<Rightarrow> env \<Rightarrow> error + CheckResult" where
  "RedshiftChecks_CheckClusterEnhancedVPCRouting c e =
     (case DescribeClusters c of
        Inl err \<Rightarrow> Inl err
      | Inr clusters \<Rightarrow>
          (let noEnhancedRouting = RedshiftChecks_CheckClusterEnhancedVPCRouting_noEnhancedRouting c clusters in
           if length noEnhancedRouting > 0 then
             Inr \<lparr>Control = ''CC6.1'',
                  Name = ''Redshift Enhanced VPC Routing'',
                  Status = ''FAIL'',
                  Severity = ''MEDIUM'',
                  Evidence = fmt_d (length noEnhancedRouting) @ '' Redshift clusters without enhanced VPC routing: '' @ fmt_v noEnhancedRouting,
                  Remediation = ''Enable enhanced VPC routing for better network security'',
                  RemediationDetail = ''aws redshift modify-cluster --cluster-identifier [CLUSTER_ID] --enhanced-vpc-routing\<newline>Note: This causes brief cluster unavailability'',
                  ScreenshotGuide = ''Redshift Console '' @ arrow @ '' Clusters '' @ arrow @ '' Select cluster '' @ arrow @ '' Properties '' @ arrow @ '' Network '' @ arrow @ '' Screenshot showing 'Enhanced VPC routing: Enabled'' @ [CHR 0x27],
                  ConsoleURL = ''https://console.aws.amazon.com/redshiftv2/home#clusters'',
                  Priority = PriorityMedium,
                  Timestamp = Now e,
                  Frameworks = GetFrameworkMappings e ''REDSHIFT_NETWORK''\<rparr>
           else if length clusters = 0 then
             Inr \<lparr>Control = ''CC6.1'',
                  Name = ''Redshift Enhanced VPC Routing'',
                  Status = ''PASS'',
                  Severity = '''',
                  Evidence = ''No Redshift clusters found'',
                  Remediation = '''',
                  RemediationDetail = '''',
                  ScreenshotGuide = '''',
                  ConsoleURL = '''',
                  Priority = PriorityInfo,
                  Timestamp = Now e,
                  Frameworks = GetFrameworkMappings e ''REDSHIFT_NETWORK''\<rparr>
           else
             Inr \<lparr>Control = ''CC6.1'',
                  Name = ''Redshift Enhanced VPC Routing'',
                  Status = ''PASS'',
                  Severity = '''',
                  Evidence = ''All '' @ fmt_d (length clusters) @ '' Redshift clusters have enhanced VPC routing enabled'',
                  Remediation = '''',
                  RemediationDetail = '''',
                  ScreenshotGuide = '''',
                  ConsoleURL = '''',
                  Priority = PriorityInfo,
                  Timestamp = Now e,
                  Frameworks = GetFrameworkMappings e ''REDSHIFT_NETWORK''\<rparr>))"
definition RedshiftChecks_Run :: "RedshiftClient \<Rightarrow> env \<Rightarrow> CheckResult list \<times> error option" where
  "RedshiftChecks_Run c e =
     (let results = [];
          results = (case RedshiftChecks_CheckClusterEncryption c e of Inr result \<Rightarrow> results @ [result] | Inl err \<Rightarrow> results);
          results = (case RedshiftChecks_CheckClusterPublicAccess c e of Inr result \<Rightarrow> results @ [result] | Inl err \<Rightarrow> results);
          results = (case RedshiftChecks_CheckClusterLogging c e of Inr result \<Rightarrow> results @ [result] | Inl err \<Rightarrow> results);
          results = (case RedshiftChecks_CheckClusterSSL c e of Inr result \<Rightarrow> results @ [result] | Inl err \<Rightarrow> results);
          results = (case RedshiftChecks_CheckClusterVersionUpgrade c e of Inr result \<Rightarrow> results @ [result] | Inl err \<Rightarrow> results);
          results = (case RedshiftChecks_CheckClusterBackupRetention c e of Inr result \<Rightarrow> results @ [result] | Inl err \<Rightarrow> results);
          results = (case RedshiftChecks_CheckClusterEnhancedVPCRouting c e of Inr result \<Rightarrow> results @ [result] | Inl err \<Rightarrow> results)
      in (results, None))"

definition RedshiftChecks_leaves :: "RedshiftClient leaf list" where
  "RedshiftChecks_leaves =
    [\<lparr>check = RedshiftChecks_CheckClusterEncryption,
      listing = (\<lambda>c. map_sum id length (DescribeClusters c)),
      offenders = (\<lambda>c. case DescribeClusters c of Inl err \<Rightarrow> [] | Inr clusters \<Rightarrow> RedshiftChecks_CheckClusterEncryption_unencrypted c clusters),
      shown = (\<lambda>e items. items),
      noun = ''Redshift clusters''\<rparr>,
     \<lparr>check = RedshiftChecks_CheckClusterPublicAccess,
      listing = (\<lambda>c. map_sum id length (DescribeClusters c)),
      offenders = (\<lambda>c. case DescribeClusters c of Inl err \<Rightarrow> [] | Inr clusters \<Rightarrow> RedshiftChecks_CheckClusterPublicAccess_publicClusters c clusters),
      shown = (\<lambda>e items. items),
      noun = ''Redshift clusters''\<rparr>,
     \<lparr>check = RedshiftChecks_CheckClusterLogging,
      listing = (\<lambda>c. map_sum id length (DescribeClusters c)),
      offenders = (\<lambda>c. case DescribeClusters c of Inl err \<Rightarrow> [] | Inr clusters \<Rightarrow> RedshiftChecks_CheckClusterLogging_noLogging c clusters),
      shown = (\<lambda>e items. items),
      noun = ''Redshift clusters''\<rparr>,
     \<lparr>check = RedshiftChecks_CheckClusterSSL,
      listing = (\<lambda>c. map_sum id length (DescribeClusters c)),
      offenders = (\<lambda>c. case DescribeClusters c of Inl err \<Rightarrow> [] | Inr clusters \<Rightarrow> RedshiftChecks_CheckClusterSSL_noSSL c clusters),
      shown = (\<lambda>e items. items),
      noun = ''Redshift clusters''\<rparr>,
     \<lparr>check = RedshiftChecks_CheckClusterVersionUpgrade,
      listing = (\<lambda>c. map_sum id length (DescribeClusters c)),
      offenders = (\<lambda>c. case DescribeClusters c of Inl err \<Rightarrow> [] | Inr clusters \<Rightarrow> RedshiftChecks_CheckClusterVersionUpgrade_noAutoUpgrade c clusters),
      shown = (\<lambda>e items. items),
      noun = ''Redshift clusters''\<rparr>,
     \<lparr>check = RedshiftChecks_CheckClusterBackupRetention,
      listing = (\<lambda>c. map_sum id length (DescribeClusters c)),
      offenders = (\<lambda>c. case DescribeClusters c of Inl err \<Rightarrow> [] | Inr clusters \<Rightarrow> RedshiftChecks_CheckClusterBackupRetention_lowRetention c clusters),
      shown = (\<lambda>e items. items),
      noun = ''Redshift clusters''\<rparr>,
     \<lparr>check = RedshiftChecks_CheckClusterEnhancedVPCRouting,
      listing = (\<lambda>c. map_sum id length (DescribeClusters c)),
      offenders = (\<lambda>c. case DescribeClusters c of Inl err \<Rightarrow> [] | Inr clusters \<Rightarrow> RedshiftChecks_CheckClusterEnhancedVPCRouting_noEnhancedRouting c clusters),
      shown = (\<lambda>e items. items),
      noun = ''Redshift clusters''\<rparr>]"
section \<open>Requirement verdicts and the compliance score\<close>

text \<open>
  Modelled from the spec: the RequirementCollapser, whose code is not among the sources.
  The spec gives the five statuses, the precedence
  FAIL over WARN over MANUAL over PASS and INFO, the rule that a bucket takes the
  highest-precedence status among its contributors and is MANUAL when it has none, and
  the score formula. PASS and INFO share the lowest level; a bucket that holds both is
  given PASS here.
\<close>

datatype VerdictStatus = PASS | FAIL | WARN | MANUAL | INFO

fun precedence :: "VerdictStatus \<Rightarrow> nat" where
  "precedence FAIL = 3"
| "precedence WARN = 2"
| "precedence MANUAL = 1"
| "precedence PASS = 0"
| "precedence INFO = 0"

definition collapse_status :: "VerdictStatus list \<Rightarrow> VerdictStatus" where
  "collapse_status contributors =
     (if contributors = [] then MANUAL
      else if FAIL \<in> set contributors then FAIL
      else if WARN \<in> set contributors then WARN
      else if MANUAL \<in> set contributors then MANUAL
      else if PASS \<in> set contributors then PASS
      else INFO)"

text \<open>
  Modelled from the spec: the ScoreAggregator, whose code is not among the sources. The
  score is computed over the bucket statuses of a report,
  \<open>100 * passed / (total - manual)\<close>, and \<open>None\<close>, the explicit sentinel, when no
  requirement can be judged automatically.
\<close>

definition passed_requirements :: "VerdictStatus list \<Rightarrow> nat" where
  "passed_requirements verdicts = length (filter (\<lambda>s. s = PASS) verdicts)"

definition manual_requirements :: "VerdictStatus list \<Rightarrow> nat" where
  "manual_requirements verdicts = length (filter (\<lambda>s. s = MANUAL) verdicts)"

definition total_requirements :: "VerdictStatus list \<Rightarrow> nat" where
  "total_requirements verdicts = length verdicts"

definition compliance_score :: "VerdictStatus list \<Rightarrow> real option" where
  "compliance_score verdicts =
     (if total_requirements verdicts - manual_requirements verdicts = 0 then None
      else Some (100 * real (passed_requirements verdicts)
                 / real (total_requirements verdicts - manual_requirements verdicts)))"

section \<open>The corpus as a whole\<close>

text \<open>
  The four checkers side by side: one client each, and the catalogue of all their leaf
  checks, every entry reading its own client.
\<close>

record clients =
  opensearch :: OpenSearchClient
  elasticache :: ElastiCacheClient
  sagemaker :: SageMakerClient
  redshift :: RedshiftClient

definition on_client :: "(clients \<Rightarrow> 'c) \<Rightarrow> 'c leaf \<Rightarrow> clients leaf" where
  "on_client sel l =
     \<lparr>check = (\<lambda>cs. check l (sel cs)),
      listing = (\<lambda>cs. listing l (sel cs)),
      offenders = (\<lambda>cs. offenders l (sel cs)),
      shown = shown l,
      noun = noun l\<rparr>"

definition leaf_checks :: "clients leaf list" where
  "leaf_checks =
     map (on_client opensearch) OpenSearchChecks_leaves
     @ map (on_client elasticache) ElastiCacheChecks_leaves
     @ map (on_client sagemaker) SageMakerChecks_leaves
     @ map (on_client redshift) RedshiftChecks_leaves"

text \<open>The results among the outcomes of a sequence of checks, in order.\<close>

fun successes :: "(error + 'a) list \<Rightarrow> 'a list" where
  "successes [] = []"
| "successes (Inr r # xs) = r # successes xs"
| "successes (Inl err # xs) = successes xs"

text \<open>
  The vacuous pass: a result with Status PASS, Priority INFO and the evidence that no
  resource of the kind was found.
\<close>

definition vacuous_pass :: "error + CheckResult \<Rightarrow> string \<Rightarrow> bool" where
  "vacuous_pass outcome kind =
     (case outcome of
        Inl err \<Rightarrow> False
      | Inr r \<Rightarrow> Status r = ''PASS'' \<and> Priority r = PriorityInfo
                 \<and> Evidence r = ''No '' @ kind @ '' found'')"

text \<open>
  What a FAIL result carries: a severity, and an evidence that starts with the number of
  offending resources and ends with the list displayed for them.
\<close>

definition fail_evidence :: "CheckResult \<Rightarrow> string list \<Rightarrow> string list \<Rightarrow> bool" where
  "fail_evidence r offending displayed =
     (Severity r \<noteq> [] \<and> Evidence r \<noteq> [] \<and> offending \<noteq> []
      \<and> prefix (fmt_d (length offending)) (Evidence r)
      \<and> suffix ('': '' @ fmt_v displayed) (Evidence r))"

section \<open>Example inputs\<close>

text \<open>
  Modelled from the spec: \<open>truncateList\<close>, declared in another file of package
  \<open>checks\<close>. The spec describes the truncation as keeping the top 5 of a long list.
\<close>

definition truncateList_top :: "string list \<Rightarrow> nat \<Rightarrow> string list" where
  "truncateList_top items n = take n items"

definition env0 :: env where
  "env0 = \<lparr>Now = 0, GetFrameworkMappings = (\<lambda>key. Map.empty), truncateList = truncateList_top\<rparr>"

text \<open>An account in which every call is refused.\<close>

definition refused :: "string \<Rightarrow> clients" where
  "refused why =
     \<lparr>opensearch = \<lparr>ListDomainNames = Inl (Err why), DescribeDomain = (\<lambda>n. Inl (Err why))\<rparr>,
      elasticache = \<lparr>DescribeCacheClusters = Inl (Err why), DescribeReplicationGroups = Inl (Err why)\<rparr>,
      sagemaker = \<lparr>ListNotebookInstances = Inl (Err why),
                   DescribeNotebookInstance = (\<lambda>n. Inl (Err why)),
                   ListEndpoints = Inl (Err why),
                   DescribeEndpoint = (\<lambda>n. Inl (Err why)),
                   DescribeEndpointConfig = (\<lambda>n. Inl (Err why)),
                   ListTrainingJobs = Inl (Err why),
                   DescribeTrainingJob = (\<lambda>n. Inl (Err why)),
                   ListModels = Inl (Err why),
                   DescribeModel = (\<lambda>n. Inl (Err why))\<rparr>,
      redshift = \<lparr>DescribeClusters = Inl (Err why),
                  DescribeLoggingStatus = (\<lambda>n. Inl (Err why)),
                  DescribeClusterParameters = (\<lambda>n. Inl (Err why))\<rparr>\<rparr>"

text \<open>An account without any resource: every list call answers the empty list.\<close>

definition bare :: clients where
  "bare =
     \<lparr>opensearch = \<lparr>ListDomainNames = Inr [], DescribeDomain = (\<lambda>n. Inl (Err ''ResourceNotFound''))\<rparr>,
      elasticache = \<lparr>DescribeCacheClusters = Inr [], DescribeReplicationGroups = Inr []\<rparr>,
      sagemaker = \<lparr>ListNotebookInstances = Inr [],
                   DescribeNotebookInstance = (\<lambda>n. Inl (Err ''ResourceNotFound'')),
                   ListEndpoints = Inr [],
                   DescribeEndpoint = (\<lambda>n. Inl (Err ''ResourceNotFound'')),
                   DescribeEndpointConfig = (\<lambda>n. Inl (Err ''ResourceNotFound'')),
                   ListTrainingJobs = Inr [],
                   DescribeTrainingJob = (\<lambda>n. Inl (Err ''ResourceNotFound'')),
                   ListModels = Inr [],
                   DescribeModel = (\<lambda>n. Inl (Err ''ResourceNotFound''))\<rparr>,
      redshift = \<lparr>DescribeClusters = Inr [],
                  DescribeLoggingStatus = (\<lambda>n. Inl (Err ''ResourceNotFound'')),
                  DescribeClusterParameters = (\<lambda>n. Inl (Err ''ResourceNotFound''))\<rparr>\<rparr>"

text \<open>Scenario A of the spec: three Redshift clusters, of which \<open>cluster-a\<close> is not encrypted.\<close>

definition cluster_named :: "string \<Rightarrow> bool \<Rightarrow> Cluster" where
  "cluster_named ident enc =
     \<lparr>ClusterIdentifier = Some ident,
      Encrypted = Some enc,
      PubliclyAccessible = Some False,
      ClusterParameterGroups = [],
      AllowVersionUpgrade = Some True,
      AutomatedSnapshotRetentionPeriod = Some 7,
      EnhancedVpcRouting = Some True\<rparr>"

definition scenario_A :: RedshiftClient where
  "scenario_A =
     \<lparr>DescribeClusters = Inr [cluster_named ''cluster-a'' False,
                               cluster_named ''cluster-b'' True,
                               cluster_named ''cluster-c'' True],
      DescribeLoggingStatus = (\<lambda>n. Inr \<lparr>LoggingEnabled = Some True\<rparr>),
      DescribeClusterParameters = (\<lambda>n. Inr [])\<rparr>"




text \<open>
  A cache directory and the libraries for it: a codec that knows one scan and its one
  encoding, a timestamp layout, and path joining with a slash.
\<close>

definition scan0 :: CachedScan where
  "scan0 =
     \<lparr>CachedScan.Timestamp = 1700000000,
      Provider = ''aws'',
      Framework = ''soc2'',
      AccountID = ''123456789012'',
      Score = 50,
      TotalControls = 2,
      PassedControls = 1,
      FailedControls = 1,
      Controls = [],
      Recommendations = [],
      Version = ''v0.7.1''\<rparr>"

definition lib0 :: library where
  "lib0 =
     \<lparr>MarshalIndent = (\<lambda>scan. if scan = scan0 then Inr ''{scan0}'' else Inl (Err ''unsupported value'')),
      Unmarshal = (\<lambda>data. if data = ''{scan0}'' then Inr scan0 else Inl (Err ''unexpected end of JSON input'')),
      Format = (\<lambda>t. ''20231114-221320''),
      Join = (\<lambda>dir name. dir @ ''/'' @ name)\<rparr>"

definition cache0 :: Cache where
  "cache0 = \<lparr>basePath = ''/home/u/.auditkit/cache''\<rparr>"

definition fs_with :: "DirEntry list \<Rightarrow> filesystem" where
  "fs_with entries =
     \<lparr>contents = Map.empty,
      ReadDir = (\<lambda>dir. if dir = ''/home/u/.auditkit/cache'' then Inr entries
                        else Inl (NotExist (''open '' @ dir @ '': no such file or directory''))),
      write_fault = Map.empty,
      read_fault = Map.empty,
      remove_fault = Map.empty\<rparr>"

definition regular_file :: "string \<Rightarrow> DirEntry" where
  "regular_file n = \<lparr>DirEntry.Name = n, IsDir = False, Info = Some 0\<rparr>"

section \<open>Facts about the formatting and the catalogue\<close>

lemma fmt_d_nonempty: "fmt_d n \<noteq> []"
  by (subst fmt_d.simps) simp

lemma fmt_d_digit: "n < 10 \<Longrightarrow> fmt_d n = [digit_char n]"
  by (subst fmt_d.simps) simp

lemma listing_zero: "map_sum id length x = Inr (0::nat) \<Longrightarrow> x = Inr []"
  by (cases x) auto

lemma keep_success:
  "(case x of Inr result \<Rightarrow> rs @ [result] | Inl err \<Rightarrow> rs) = rs @ successes [x]"
  by (cases x) auto

lemma successes_Cons2: "successes (x # y # ys) = successes [x] @ successes (y # ys)"
  by (cases x) auto


lemmas OpenSearchChecks_check_defs =
  OpenSearchChecks_CheckEncryptionAtRest_def
  OpenSearchChecks_CheckNodeToNodeEncryption_def
  OpenSearchChecks_CheckHTTPS_def
  OpenSearchChecks_CheckVPCDeployment_def
  OpenSearchChecks_CheckAuditLogs_def
  OpenSearchChecks_CheckFineGrainedAccessControl_def

lemmas ElastiCacheChecks_check_defs =
  ElastiCacheChecks_CheckEncryptionAtRest_def
  ElastiCacheChecks_CheckEncryptionInTransit_def
  ElastiCacheChecks_CheckAutoMinorVersionUpgrade_def
  ElastiCacheChecks_CheckAuthToken_def
  ElastiCacheChecks_CheckBackupRetention_def

lemmas SageMakerChecks_check_defs =
  SageMakerChecks_CheckNotebookEncryption_def
  SageMakerChecks_CheckNotebookDirectInternet_def
  SageMakerChecks_CheckNotebookRootAccess_def
  SageMakerChecks_CheckEndpointEncryption_def
  SageMakerChecks_CheckTrainingJobEncryption_def
  SageMakerChecks_CheckModelNetworkIsolation_def

lemmas RedshiftChecks_check_defs =
  RedshiftChecks_CheckClusterEncryption_def
  RedshiftChecks_CheckClusterPublicAccess_def
  RedshiftChecks_CheckClusterLogging_def
  RedshiftChecks_CheckClusterSSL_def
  RedshiftChecks_CheckClusterVersionUpgrade_def
  RedshiftChecks_CheckClusterBackupRetention_def
  RedshiftChecks_CheckClusterEnhancedVPCRouting_def

lemmas OpenSearchChecks_loop_defs =
  OpenSearchChecks_CheckEncryptionAtRest_unencrypted_def
  OpenSearchChecks_CheckNodeToNodeEncryption_noNodeEncryption_def
  OpenSearchChecks_CheckHTTPS_noHTTPS_def
  OpenSearchChecks_CheckVPCDeployment_publicDomains_def
  OpenSearchChecks_CheckAuditLogs_noAuditLogs_def
  OpenSearchChecks_CheckFineGrainedAccessControl_noFGAC_def

lemmas ElastiCacheChecks_loop_defs =
  ElastiCacheChecks_CheckEncryptionAtRest_unencrypted_def
  ElastiCacheChecks_CheckEncryptionInTransit_noTransitEncryption_def
  ElastiCacheChecks_CheckAutoMinorVersionUpgrade_noAutoUpgrade_def
  ElastiCacheChecks_CheckAuthToken_noAuth_def
  ElastiCacheChecks_CheckBackupRetention_lowRetention_def

lemmas SageMakerChecks_loop_defs =
  SageMakerChecks_CheckNotebookEncryption_unencrypted_def
  SageMakerChecks_CheckNotebookDirectInternet_directInternet_def
  SageMakerChecks_CheckNotebookRootAccess_rootEnabled_def
  SageMakerChecks_CheckEndpointEncryption_unencrypted_def
  SageMakerChecks_CheckTrainingJobEncryption_unencrypted_def
  SageMakerChecks_CheckModelNetworkIsolation_notIsolated_def

lemmas RedshiftChecks_loop_defs =
  RedshiftChecks_CheckClusterEncryption_unencrypted_def
  RedshiftChecks_CheckClusterPublicAccess_publicClusters_def
  RedshiftChecks_CheckClusterLogging_noLogging_def
  RedshiftChecks_CheckClusterSSL_noSSL_def
  RedshiftChecks_CheckClusterVersionUpgrade_noAutoUpgrade_def
  RedshiftChecks_CheckClusterBackupRetention_lowRetention_def
  RedshiftChecks_CheckClusterEnhancedVPCRouting_noEnhancedRouting_def

subsection \<open>Each checker's \<open>Run\<close> is its catalogue, run in order\<close>

lemma OpenSearchChecks_Run_eq:
  "OpenSearchChecks_Run c e = (successes (map (\<lambda>l. check l c e) OpenSearchChecks_leaves), None)"
  unfolding OpenSearchChecks_Run_def OpenSearchChecks_leaves_def Let_def
  by (simp add: keep_success successes_Cons2)

lemma ElastiCacheChecks_Run_eq:
  "ElastiCacheChecks_Run c e = (successes (map (\<lambda>l. check l c e) ElastiCacheChecks_leaves), None)"
  unfolding ElastiCacheChecks_Run_def ElastiCacheChecks_leaves_def Let_def
  by (simp add: keep_success successes_Cons2)

lemma SageMakerChecks_Run_eq:
  "SageMakerChecks_Run c e = (successes (map (\<lambda>l. check l c e) SageMakerChecks_leaves), None)"
  unfolding SageMakerChecks_Run_def SageMakerChecks_leaves_def Let_def
  by (simp add: keep_success successes_Cons2)

lemma RedshiftChecks_Run_eq:
  "RedshiftChecks_Run c e = (successes (map (\<lambda>l. check l c e) RedshiftChecks_leaves), None)"
  unfolding RedshiftChecks_Run_def RedshiftChecks_leaves_def Let_def
  by (simp add: keep_success successes_Cons2)

subsection \<open>No resources: the vacuous pass, checker by checker\<close>

lemma OpenSearchChecks_vacuous:
  assumes "l \<in> set OpenSearchChecks_leaves" and "listing l c = Inr 0"
  shows "vacuous_pass (check l c e) (noun l)"
  using assms unfolding OpenSearchChecks_leaves_def
  apply (simp only: set_simps insert_iff empty_iff)
  apply (elim disjE)
  apply (auto dest!: listing_zero
      simp: OpenSearchChecks_check_defs OpenSearchChecks_loop_defs vacuous_pass_def)
  done

lemma ElastiCacheChecks_vacuous:
  assumes "l \<in> set ElastiCacheChecks_leaves" and "listing l c = Inr 0"
  shows "vacuous_pass (check l c e) (noun l)"
  using assms unfolding ElastiCacheChecks_leaves_def
  apply (simp only: set_simps insert_iff empty_iff)
  apply (elim disjE)
  apply (auto dest!: listing_zero
      simp: ElastiCacheChecks_check_defs ElastiCacheChecks_loop_defs vacuous_pass_def)
  done

lemma SageMakerChecks_vacuous:
  assumes "l \<in> set SageMakerChecks_leaves" and "listing l c = Inr 0"
  shows "vacuous_pass (check l c e) (noun l)"
  using assms unfolding SageMakerChecks_leaves_def
  apply (simp only: set_simps insert_iff empty_iff)
  apply (elim disjE)
  apply (auto dest!: listing_zero
      simp: SageMakerChecks_check_defs SageMakerChecks_loop_defs vacuous_pass_def)
  done

lemma RedshiftChecks_vacuous:
  assumes "l \<in> set RedshiftChecks_leaves" and "listing l c = Inr 0"
  shows "vacuous_pass (check l c e) (noun l)"
  using assms unfolding RedshiftChecks_leaves_def
  apply (simp only: set_simps insert_iff empty_iff)
  apply (elim disjE)
  apply (auto dest!: listing_zero
      simp: RedshiftChecks_check_defs RedshiftChecks_loop_defs vacuous_pass_def)
  done

subsection \<open>A FAIL result, checker by checker\<close>

lemma OpenSearchChecks_fail:
  assumes "l \<in> set OpenSearchChecks_leaves" and "check l c e = Inr r" and "Status r = ''FAIL''"
  shows "fail_evidence r (offenders l c) (shown l e (offenders l c))"
  using assms unfolding OpenSearchChecks_leaves_def
  apply (simp only: set_simps insert_iff empty_iff)
  apply (elim disjE)
  apply (auto simp: OpenSearchChecks_check_defs Let_def fail_evidence_def fmt_d_nonempty
      suffix_to_prefix split: sum.splits if_splits)
  done

lemma ElastiCacheChecks_fail:
  assumes "l \<in> set ElastiCacheChecks_leaves" and "check l c e = Inr r" and "Status r = ''FAIL''"
  shows "fail_evidence r (offenders l c) (shown l e (offenders l c))"
  using assms unfolding ElastiCacheChecks_leaves_def
  apply (simp only: set_simps insert_iff empty_iff)
  apply (elim disjE)
  apply (auto simp: ElastiCacheChecks_check_defs Let_def fail_evidence_def fmt_d_nonempty
      suffix_to_prefix split: sum.splits if_splits)
  done

lemma SageMakerChecks_fail:
  assumes "l \<in> set SageMakerChecks_leaves" and "check l c e = Inr r" and "Status r = ''FAIL''"
  shows "fail_evidence r (offenders l c) (shown l e (offenders l c))"
  using assms unfolding SageMakerChecks_leaves_def
  apply (simp only: set_simps insert_iff empty_iff)
  apply (elim disjE)
  apply (auto simp: SageMakerChecks_check_defs Let_def fail_evidence_def fmt_d_nonempty
      suffix_to_prefix split: sum.splits if_splits)
  done

lemma RedshiftChecks_fail:
  assumes "l \<in> set RedshiftChecks_leaves" and "check l c e = Inr r" and "Status r = ''FAIL''"
  shows "fail_evidence r (offenders l c) (shown l e (offenders l c))"
  using assms unfolding RedshiftChecks_leaves_def
  apply (simp only: set_simps insert_iff empty_iff)
  apply (elim disjE)
  apply (auto simp: RedshiftChecks_check_defs Let_def fail_evidence_def fmt_d_nonempty
      suffix_to_prefix split: sum.splits if_splits)
  done

lemma leaf_checks_cases:
  assumes "l \<in> set leaf_checks"
  obtains l' where "l' \<in> set OpenSearchChecks_leaves" and "l = on_client opensearch l'"
  | l' where "l' \<in> set ElastiCacheChecks_leaves" and "l = on_client elasticache l'"
  | l' where "l' \<in> set SageMakerChecks_leaves" and "l = on_client sagemaker l'"
  | l' where "l' \<in> set RedshiftChecks_leaves" and "l = on_client redshift l'"
  using assms unfolding leaf_checks_def by auto

section \<open>Leaf checks\<close>

text \<open>
  Claim C1. A leaf check whose list call succeeds and returns no resource answers a
  result with Status PASS, Priority INFO and the evidence "No ... found" for its kind of
  resource; the absence of a resource type is not reported as a violation. This holds
  for every leaf check of the four checkers.
\<close>

theorem zero_resources_vacuous_pass:
  assumes "l \<in> set leaf_checks" and "listing l cs = Inr 0"
  shows "vacuous_pass (check l cs e) (noun l)"
  using assms(1)
proof (cases rule: leaf_checks_cases)
  case (1 l')
  with assms(2) OpenSearchChecks_vacuous [of l' "opensearch cs" e] show ?thesis
    by (simp add: on_client_def)
next
  case (2 l')
  with assms(2) ElastiCacheChecks_vacuous [of l' "elasticache cs" e] show ?thesis
    by (simp add: on_client_def)
next
  case (3 l')
  with assms(2) SageMakerChecks_vacuous [of l' "sagemaker cs" e] show ?thesis
    by (simp add: on_client_def)
next
  case (4 l')
  with assms(2) RedshiftChecks_vacuous [of l' "redshift cs" e] show ?thesis
    by (simp add: on_client_def)
qed

text \<open>Scenario B of the spec: no Redshift cluster.\<close>

theorem zero_resources_vacuous_pass_witness:
  "DescribeClusters (redshift bare) = Inr []
   \<and> map_sum id Status (RedshiftChecks_CheckClusterEncryption (redshift bare) env0) = Inr ''PASS''
   \<and> map_sum id Priority (RedshiftChecks_CheckClusterEncryption (redshift bare) env0) = Inr PriorityInfo
   \<and> map_sum id Evidence (RedshiftChecks_CheckClusterEncryption (redshift bare) env0)
       = Inr ''No Redshift clusters found''"
proof -
  have mem: "on_client redshift (hd RedshiftChecks_leaves) \<in> set leaf_checks"
    by (simp add: leaf_checks_def RedshiftChecks_leaves_def)
  have zero: "listing (on_client redshift (hd RedshiftChecks_leaves)) bare = Inr 0"
    by (simp add: RedshiftChecks_leaves_def on_client_def bare_def)
  from zero_resources_vacuous_pass [OF mem zero, of env0]
  have "vacuous_pass (RedshiftChecks_CheckClusterEncryption (redshift bare) env0) ''Redshift clusters''"
    by (simp add: RedshiftChecks_leaves_def on_client_def)
  then show ?thesis
    by (simp add: vacuous_pass_def bare_def split: sum.splits)
qed

text \<open>
  Claim C2. Every result with Status FAIL that a leaf check returns carries a non-empty
  Severity and a non-empty Evidence; the evidence starts with the number of offending
  resources and ends with the list of their identifiers, which two SageMaker checks pass
  through \<open>truncateList\<close> first. This holds on the FAIL path of every leaf check.
\<close>

theorem fail_carries_severity_and_evidence:
  assumes "l \<in> set leaf_checks" and "check l cs e = Inr r" and "Status r = ''FAIL''"
  shows "fail_evidence r (offenders l cs) (shown l e (offenders l cs))"
  using assms(1)
proof (cases rule: leaf_checks_cases)
  case (1 l')
  with assms(2,3) OpenSearchChecks_fail [of l' "opensearch cs" e r] show ?thesis
    by (simp add: on_client_def)
next
  case (2 l')
  with assms(2,3) ElastiCacheChecks_fail [of l' "elasticache cs" e r] show ?thesis
    by (simp add: on_client_def)
next
  case (3 l')
  with assms(2,3) SageMakerChecks_fail [of l' "sagemaker cs" e r] show ?thesis
    by (simp add: on_client_def)
next
  case (4 l')
  with assms(2,3) RedshiftChecks_fail [of l' "redshift cs" e r] show ?thesis
    by (simp add: on_client_def)
qed

lemma scenario_A_clusters:
  "DescribeClusters scenario_A =
     Inr [cluster_named ''cluster-a'' False, cluster_named ''cluster-b'' True,
          cluster_named ''cluster-c'' True]"
  by (simp add: scenario_A_def)

lemma scenario_A_unencrypted:
  "RedshiftChecks_CheckClusterEncryption_unencrypted scenario_A
     [cluster_named ''cluster-a'' False, cluster_named ''cluster-b'' True,
      cluster_named ''cluster-c'' True] = [''cluster-a'']"
  by (simp add: RedshiftChecks_CheckClusterEncryption_unencrypted_def cluster_named_def
      ToBool_def ToString_def)

theorem fail_carries_severity_and_evidence_witness:
  "\<exists>r. RedshiftChecks_CheckClusterEncryption scenario_A env0 = Inr r \<and> Status r = ''FAIL''
       \<and> fail_evidence r [''cluster-a''] [''cluster-a'']"
proof -
  let ?l = "on_client redshift (hd RedshiftChecks_leaves)"
  let ?cs = "bare\<lparr>redshift := scenario_A\<rparr>"
  have mem: "?l \<in> set leaf_checks"
    by (simp add: leaf_checks_def RedshiftChecks_leaves_def)
  obtain r where r: "RedshiftChecks_CheckClusterEncryption scenario_A env0 = Inr r"
    and st: "Status r = ''FAIL''"
    by (simp add: RedshiftChecks_CheckClusterEncryption_def scenario_A_unencrypted
        scenario_A_clusters)
  have run: "check ?l ?cs env0 = Inr r"
    using r by (simp add: RedshiftChecks_leaves_def on_client_def)
  have offs: "offenders ?l ?cs = [''cluster-a'']" "shown ?l env0 [''cluster-a''] = [''cluster-a'']"
    by (simp_all add: RedshiftChecks_leaves_def on_client_def scenario_A_unencrypted
        scenario_A_clusters)
  from fail_carries_severity_and_evidence [OF mem run st] offs r st show ?thesis
    by simp
qed

section \<open>The aggregation loop of \<open>Run\<close>\<close>


text \<open>
  Claim C3, as stated, fails on the code: a sub-check that returns an error is left out of
  the results, but nothing surfaces the omission. Where every call is refused, each
  sub-check returns the error, and \<open>Run\<close> returns no result and a nil error, the same
  whatever the error was.
\<close>

theorem omissions_not_surfaced_counterexample:
  "OpenSearchChecks_CheckEncryptionAtRest (opensearch (refused ''AccessDenied'')) env0
     = Inl (Err ''AccessDenied'')
   \<and> OpenSearchChecks_CheckEncryptionAtRest (opensearch (refused ''Throttling'')) env0
     = Inl (Err ''Throttling'')
   \<and> OpenSearchChecks_Run (opensearch (refused ''AccessDenied'')) env0 = ([], None)
   \<and> OpenSearchChecks_Run (opensearch (refused ''Throttling'')) env0 = ([], None)"
  by (simp add: OpenSearchChecks_Run_def OpenSearchChecks_check_defs refused_def)

text \<open>
  Claim C3, amended. In each checker's \<open>Run\<close>, a sub-check that returns an error is
  left out of the result list, never turned into a FAIL or PASS result: \<open>Run\<close> returns
  exactly the results of the sub-checks that succeeded, in the order of the calls, and a
  nil error. The errors themselves are discarded.
\<close>

theorem run_returns_successes_only:
  "OpenSearchChecks_Run (opensearch cs) e
     = (successes (map (\<lambda>l. check l (opensearch cs) e) OpenSearchChecks_leaves), None)
   \<and> ElastiCacheChecks_Run (elasticache cs) e
     = (successes (map (\<lambda>l. check l (elasticache cs) e) ElastiCacheChecks_leaves), None)
   \<and> SageMakerChecks_Run (sagemaker cs) e
     = (successes (map (\<lambda>l. check l (sagemaker cs) e) SageMakerChecks_leaves), None)
   \<and> RedshiftChecks_Run (redshift cs) e
     = (successes (map (\<lambda>l. check l (redshift cs) e) RedshiftChecks_leaves), None)"
  by (simp only: OpenSearchChecks_Run_eq ElastiCacheChecks_Run_eq SageMakerChecks_Run_eq
      RedshiftChecks_Run_eq)




section \<open>Redshift cluster encryption\<close>

text \<open>The loop of \<open>CheckClusterEncryption\<close> collects the identifiers of the clusters not encrypted.\<close>

lemma unencrypted_fold:
  "fold (\<lambda>cluster unencrypted.
           if \<not> ToBool (Encrypted cluster)
           then unencrypted @ [ToString (ClusterIdentifier cluster)]
           else unencrypted) clusters acc
   = acc @ map (\<lambda>cluster. ToString (ClusterIdentifier cluster))
             (filter (\<lambda>cluster. \<not> ToBool (Encrypted cluster)) clusters)"
  by (induction clusters arbitrary: acc) simp_all

lemma RedshiftChecks_unencrypted_eq:
  "RedshiftChecks_CheckClusterEncryption_unencrypted c clusters
   = map (\<lambda>cluster. ToString (ClusterIdentifier cluster))
       (filter (\<lambda>cluster. \<not> ToBool (Encrypted cluster)) clusters)"
  by (simp add: RedshiftChecks_CheckClusterEncryption_unencrypted_def unencrypted_fold)

text \<open>
  Claim C6. When the cluster list holds at least one cluster that is not encrypted,
  \<open>CheckClusterEncryption\<close> returns a result with Status FAIL and Severity CRITICAL whose
  evidence is the number of such clusters, the words "Redshift clusters NOT encrypted:"
  and the list of their identifiers.
\<close>

theorem unencrypted_cluster_fails:
  assumes "DescribeClusters c = Inr clusters"
    and "\<exists>cluster\<in>set clusters. \<not> ToBool (Encrypted cluster)"
  shows "\<exists>r. RedshiftChecks_CheckClusterEncryption c e = Inr r
           \<and> Status r = ''FAIL'' \<and> Severity r = ''CRITICAL''
           \<and> Evidence r =
               fmt_d (length (filter (\<lambda>cluster. \<not> ToBool (Encrypted cluster)) clusters))
               @ '' Redshift clusters NOT encrypted: ''
               @ fmt_v (map (\<lambda>cluster. ToString (ClusterIdentifier cluster))
                          (filter (\<lambda>cluster. \<not> ToBool (Encrypted cluster)) clusters))"
proof -
  from assms(2) have "filter (\<lambda>cluster. \<not> ToBool (Encrypted cluster)) clusters \<noteq> []"
    by (simp add: filter_empty_conv)
  with assms(1) show ?thesis
    by (simp add: RedshiftChecks_CheckClusterEncryption_def RedshiftChecks_unencrypted_eq Let_def)
qed

text \<open>Scenario A of the spec: three clusters, one of them, \<open>cluster-a\<close>, not encrypted.\<close>

theorem unencrypted_cluster_fails_witness:
  "map_sum id Status (RedshiftChecks_CheckClusterEncryption scenario_A env0) = Inr ''FAIL''
   \<and> map_sum id Severity (RedshiftChecks_CheckClusterEncryption scenario_A env0) = Inr ''CRITICAL''
   \<and> map_sum id Evidence (RedshiftChecks_CheckClusterEncryption scenario_A env0)
       = Inr ''1 Redshift clusters NOT encrypted: [cluster-a]''"
proof -
  have bad: "\<exists>cluster\<in>set [cluster_named ''cluster-a'' False, cluster_named ''cluster-b'' True,
                              cluster_named ''cluster-c'' True]. \<not> ToBool (Encrypted cluster)"
    by (simp add: cluster_named_def ToBool_def)
  from unencrypted_cluster_fails [OF scenario_A_clusters bad, of env0] show ?thesis
    by (auto simp: cluster_named_def ToBool_def ToString_def fmt_d_digit digit_char_def fmt_v_def)
qed

section \<open>Truncation of the offender list\<close>












section \<open>Requirement verdicts and the score\<close>

lemma status_cases:
  "s = FAIL \<or> s = WARN \<or> s = MANUAL \<or> s = PASS \<or> s = INFO"
  by (cases s) simp_all

lemma collapse_status_member:
  assumes "contributors \<noteq> []"
  shows "collapse_status contributors \<in> set contributors"
proof -
  from assms obtain s where "s \<in> set contributors"
    by (cases contributors) auto
  then show ?thesis
    using status_cases [of s] by (auto simp: collapse_status_def)
qed

lemma collapse_status_highest:
  assumes "s \<in> set contributors"
  shows "precedence s \<le> precedence (collapse_status contributors)"
  using assms status_cases [of s] by (auto simp: collapse_status_def)

lemma collapse_status_set:
  assumes "set others = set contributors"
  shows "collapse_status others = collapse_status contributors"
proof -
  from assms have "others = [] \<longleftrightarrow> contributors = []"
    by (metis set_empty)
  with assms show ?thesis
    by (simp add: collapse_status_def)
qed

text \<open>
  Claim C4. For a bucket with at least one contributing result, the status is one of the
  contributors' statuses and no contributor has a higher precedence, in the order FAIL
  over WARN over MANUAL over PASS and INFO; a single FAIL among the contributors makes
  the verdict FAIL; and the status is the same for every reordering of the contributors.
\<close>

theorem verdict_status_precedence:
  assumes "contributors \<noteq> []"
  shows "collapse_status contributors \<in> set contributors
         \<and> (\<forall>s\<in>set contributors. precedence s \<le> precedence (collapse_status contributors))
         \<and> (FAIL \<in> set contributors \<longrightarrow> collapse_status contributors = FAIL)
         \<and> (\<forall>others. mset others = mset contributors \<longrightarrow>
               collapse_status others = collapse_status contributors)"
proof (intro conjI ballI allI impI)
  show "collapse_status contributors \<in> set contributors"
    using assms by (rule collapse_status_member)
next
  fix s assume "s \<in> set contributors"
  then show "precedence s \<le> precedence (collapse_status contributors)"
    by (rule collapse_status_highest)
next
  assume "FAIL \<in> set contributors"
  with assms show "collapse_status contributors = FAIL"
    by (simp add: collapse_status_def)
next
  fix others assume "mset others = mset contributors"
  then have "set others = set contributors"
    by (rule mset_eq_setD)
  then show "collapse_status others = collapse_status contributors"
    by (rule collapse_status_set)
qed

text \<open>Scenario D of the spec: four PASS and one FAIL, in two orders.\<close>

theorem verdict_status_precedence_witness:
  "collapse_status [PASS, PASS, FAIL, PASS, PASS] = FAIL
   \<and> collapse_status [FAIL, PASS, PASS, PASS, PASS] = collapse_status [PASS, PASS, FAIL, PASS, PASS]"
proof -
  have nonempty: "[PASS, PASS, FAIL, PASS, PASS] \<noteq> []"
    by simp
  have same: "mset [FAIL, PASS, PASS, PASS, PASS] = mset [PASS, PASS, FAIL, PASS, PASS]"
    by simp
  from verdict_status_precedence [OF nonempty] same show ?thesis
    by auto
qed

lemma passed_and_manual_bound:
  "passed_requirements verdicts + manual_requirements verdicts \<le> total_requirements verdicts"
  unfolding passed_requirements_def manual_requirements_def total_requirements_def
  by (induction verdicts) auto

text \<open>
  Claim C5. The score is \<open>100 * passed / (total - manual)\<close>, the MANUAL requirements
  taking part in neither count; when the denominator is not zero the score lies between
  0 and 100, and when it is zero the result is the sentinel \<open>None\<close>, not a number.
\<close>

theorem score_formula_and_bounds:
  "(total_requirements verdicts - manual_requirements verdicts \<noteq> 0 \<longrightarrow>
      (\<exists>x. compliance_score verdicts = Some x
         \<and> x = 100 * real (passed_requirements verdicts)
                 / real (total_requirements verdicts - manual_requirements verdicts)
         \<and> 0 \<le> x \<and> x \<le> 100))
   \<and> (total_requirements verdicts - manual_requirements verdicts = 0 \<longrightarrow>
        compliance_score verdicts = None)"
proof (intro conjI impI)
  assume nz: "total_requirements verdicts - manual_requirements verdicts \<noteq> 0"
  let ?p = "passed_requirements verdicts"
  let ?d = "total_requirements verdicts - manual_requirements verdicts"
  from passed_and_manual_bound [of verdicts] have "?p \<le> ?d"
    by simp
  then have "real ?p \<le> real ?d"
    by simp
  moreover from nz have pos: "0 < real ?d"
    by simp
  ultimately have "100 * real ?p / real ?d \<le> 100"
    by (simp add: divide_le_eq)
  moreover have "0 \<le> 100 * real ?p / real ?d"
    by simp
  ultimately show "\<exists>x. compliance_score verdicts = Some x
         \<and> x = 100 * real ?p / real ?d \<and> 0 \<le> x \<and> x \<le> 100"
    using nz by (simp add: compliance_score_def)
next
  assume "total_requirements verdicts - manual_requirements verdicts = 0"
  then show "compliance_score verdicts = None"
    by (simp add: compliance_score_def)
qed

theorem score_formula_and_bounds_witness:
  "compliance_score [PASS, FAIL, MANUAL] = Some 50
   \<and> compliance_score [MANUAL, MANUAL] = None"
proof -
  have counts: "total_requirements [PASS, FAIL, MANUAL] - manual_requirements [PASS, FAIL, MANUAL] = 2"
      "passed_requirements [PASS, FAIL, MANUAL] = 1"
      "total_requirements [MANUAL, MANUAL] - manual_requirements [MANUAL, MANUAL] = 0"
    by (simp_all add: total_requirements_def manual_requirements_def passed_requirements_def)
  from score_formula_and_bounds [of "[PASS, FAIL, MANUAL]"]
    score_formula_and_bounds [of "[MANUAL, MANUAL]"] counts
  show ?thesis
    by auto
qed

section \<open>The offline cache\<close>






text \<open>
  Where the slice panics: in \<open>ClearOlderThan\<close> at the first entry that is not a
  directory and has a name shorter than six bytes, when no such entry came before it; in
  \<open>GetCacheInfo\<close> at such an entry whose extension is \<open>.json\<close>.
\<close>

lemma ClearOlderThan_short_name:
  assumes "ReadDir fs (basePath c) = Inr (entry # entries)"
    and "\<not> IsDir entry" and "length (DirEntry.Name entry) < 6"
  shows "ClearOlderThan lib c fs now duration
         = Inl (SliceBoundsOutOfRange 6 (length (DirEntry.Name entry)))"
  using assms by (simp add: ClearOlderThan_def slice_to_def)

lemma GetCacheInfo_short_name:
  assumes "ReadDir fs (basePath c) = Inr (entry # entries)"
    and "\<not> IsDir entry" and "Ext (DirEntry.Name entry) = ''.json''"
    and "length (DirEntry.Name entry) < 6"
  shows "GetCacheInfo lib c fs = Inl (SliceBoundsOutOfRange 6 (length (DirEntry.Name entry)))"
  using assms by (simp add: GetCacheInfo_def slice_to_def)

text \<open>
  Claim C10 fails on the code: the slice \<open>entry.Name()[:6]\<close> panics on a name shorter
  than six characters. In \<open>ClearOlderThan\<close> any such regular file reaches the slice; in
  \<open>GetCacheInfo\<close> the extension test comes first, and the file named \<open>.json\<close> passes it.
\<close>

theorem short_file_name_panics:
  "ClearOlderThan lib0 cache0 (fs_with [regular_file ''a.txt'']) 1700000000 3600
     = Inl (SliceBoundsOutOfRange 6 5)
   \<and> GetCacheInfo lib0 cache0 (fs_with [regular_file ''.json'']) = Inl (SliceBoundsOutOfRange 6 5)"
  by (simp add: ClearOlderThan_def GetCacheInfo_def fs_with_def cache0_def regular_file_def
      slice_to_def Ext_def)

end
